theory Spec2Isabelle
  imports Main "HOL-Library.Word"
begin

section \<open>pyOutlook: the Folder class of \<^verbatim>\<open>pyOutlook/core/folders.py\<close>\<close>

subsection \<open>Python values, errors, objects\<close>

text \<open>
  What \<^verbatim>\<open>r.json()\<close> returns: the Python value of a JSON text. A float is carried as its
  64-bit pattern (nothing here computes on it). A dict is a list of key/value pairs with
  distinct keys, read with \<open>map_of\<close>.
\<close>

datatype json =
    JNull
  | JBool bool
  | JInt int
  | JFloat "64 word"
  | JString string
  | JArray "json list"
  | JObject "(string \<times> json) list"

text \<open>
  The exceptions the module can let out. \<open>AuthError\<close> is built from one message string, as in
  \<^verbatim>\<open>raise AuthError('Access Token Error, Received ...')\<close>; the others are Python's own and those
  of the HTTP and JSON libraries.
\<close>

datatype error =
    AuthError string
  | KeyError string
  | TypeError
  | AttributeError
  | JSONDecodeError
  | RequestException

type_synonym ref = nat

text \<open>
  Modelled from the spec: the class \<^verbatim>\<open>OutlookAccount\<close> (\<^verbatim>\<open>pyOutlook.core.main\<close>) is not part of
  the source at hand; the spec requires of it only a readable access-token string.
\<close>

record outlook_account =
  access_token :: string

text \<open>
  The attributes \<^verbatim>\<open>__init__\<close> sets, in its order. \<^verbatim>\<open>self.name\<close> and \<^verbatim>\<open>self.id\<close> are named
  \<open>folder_name\<close> and \<open>folder_id\<close>, after the constructor's parameters (\<open>id\<close> is HOL's identity).
  The account is a reference: the Folder does not own it. The other attributes hold whatever
  the JSON held.
\<close>

record folder =
  account :: ref
  parent_id :: json
  child_folder_count :: json
  unread_count :: json
  total_items :: json
  folder_name :: json
  folder_id :: json

datatype obj = ObjAccount outlook_account | ObjFolder folder

subsection \<open>HTTP, as the module sees it through \<^verbatim>\<open>requests\<close>\<close>

datatype http_method = GET | POST | PATCH | DELETE

record http_request =
  req_method :: http_method
  req_url :: string
  req_headers :: "(string \<times> string) list"
  req_data :: "string option"

text \<open>
  A response: its status code and what \<^verbatim>\<open>r.json()\<close> gives (\<open>None\<close> when the body is not JSON
  and \<^verbatim>\<open>r.json()\<close> raises).
\<close>

record http_response =
  status_code :: int
  json_body :: "json option"

text \<open>The network and the server behind it: a request is answered or the library raises.\<close>

type_synonym transport = "http_request \<Rightarrow> error + http_response"

subsection \<open>The world: the object store and the trace of effects\<close>

datatype event = EvRequest http_request | EvJson

text \<open>
  Objects live in a store indexed by reference; a new object is appended, so its reference is
  fresh. The trace records each HTTP request sent and each call of \<^verbatim>\<open>r.json()\<close>.
\<close>

record world =
  heap :: "obj list"
  trace :: "event list"

definition lookup :: "world \<Rightarrow> ref \<Rightarrow> obj option" where
  "lookup w r = (if r < length (heap w) then Some (heap w ! r) else None)"

type_synonym 'a prog = "world \<Rightarrow> (error + 'a) \<times> world"

definition ret :: "'a \<Rightarrow> 'a prog" where
  "ret x = (\<lambda>w. (Inr x, w))"

definition raise :: "error \<Rightarrow> 'a prog" where
  "raise e = (\<lambda>w. (Inl e, w))"

definition lift :: "error + 'a \<Rightarrow> 'a prog" where
  "lift v = (\<lambda>w. (v, w))"

definition bnd :: "'a prog \<Rightarrow> ('a \<Rightarrow> 'b prog) \<Rightarrow> 'b prog" where
  "bnd m k = (\<lambda>w. case m w of (Inl e, w') \<Rightarrow> (Inl e, w') | (Inr x, w') \<Rightarrow> k x w')"

definition alloc :: "obj \<Rightarrow> ref prog" where
  "alloc ob = (\<lambda>w. (Inr (length (heap w)), w\<lparr>heap := heap w @ [ob]\<rparr>))"

definition emit :: "event \<Rightarrow> unit prog" where
  "emit ev = (\<lambda>w. (Inr (), w\<lparr>trace := trace w @ [ev]\<rparr>))"

subsection \<open>Python primitives the module uses\<close>

text \<open>\<^verbatim>\<open>v[key]\<close> with a string key: a dict looks the key up, every other JSON value raises TypeError.\<close>

fun getitem :: "json \<Rightarrow> string \<Rightarrow> error + json" where
  "getitem (JObject kvs) k = (case map_of kvs k of None \<Rightarrow> Inl (KeyError k) | Some v \<Rightarrow> Inr v)"
| "getitem _ k = Inl TypeError"

text \<open>\<^verbatim>\<open>for x in v\<close>: a list gives its elements, a dict its keys, a string its characters.\<close>

fun py_iter :: "json \<Rightarrow> error + json list" where
  "py_iter (JArray xs) = Inr xs"
| "py_iter (JObject kvs) = Inr (map (\<lambda>kv. JString (fst kv)) kvs)"
| "py_iter (JString s) = Inr (map (\<lambda>c. JString [c]) s)"
| "py_iter _ = Inl TypeError"

text \<open>\<^verbatim>\<open>'literal' + v\<close>: defined when \<open>v\<close> is a str.\<close>

fun str_add :: "string \<Rightarrow> json \<Rightarrow> error + string" where
  "str_add s (JString t) = Inr (s @ t)"
| "str_add s _ = Inl TypeError"

text \<open>\<^verbatim>\<open>str(n)\<close> on an int.\<close>

definition digit_char :: "nat \<Rightarrow> char" where
  "digit_char d = ''0123456789'' ! d"

fun str_nat :: "nat \<Rightarrow> string" where
  "str_nat n = (if n < 10 then [digit_char n] else str_nat (n div 10) @ [digit_char (n mod 10)])"

declare str_nat.simps [simp del]

definition str :: "int \<Rightarrow> string" where
  "str i = (if i < 0 then CHR ''-'' # str_nat (nat (- i)) else str_nat (nat i))"

subsection \<open>Attribute reads on \<^verbatim>\<open>self\<close>\<close>

definition get_folder :: "ref \<Rightarrow> folder prog" where
  "get_folder self = (\<lambda>w. case lookup w self of
      Some (ObjFolder f) \<Rightarrow> (Inr f, w)
    | _ \<Rightarrow> (Inl AttributeError, w))"

definition get_access_token :: "ref \<Rightarrow> string prog" where
  "get_access_token a = (\<lambda>w. case lookup w a of
      Some (ObjAccount acct) \<Rightarrow> (Inr (access_token acct), w)
    | _ \<Rightarrow> (Inl AttributeError, w))"

subsection \<open>The class Folder\<close>

text \<open>\<^verbatim>\<open>Folder(account, folder_id, folder_name, ...)\<close>: a new object, then \<^verbatim>\<open>__init__\<close>.\<close>

definition Folder :: "ref \<Rightarrow> json \<Rightarrow> json \<Rightarrow> json \<Rightarrow> json \<Rightarrow> json \<Rightarrow> json \<Rightarrow> ref prog" where
  "Folder acct fid fname pid cfc uc ti =
     alloc (ObjFolder \<lparr>account = acct, parent_id = pid, child_folder_count = cfc,
                       unread_count = uc, total_items = ti, folder_name = fname,
                       folder_id = fid\<rparr>)"

text \<open>The property \<^verbatim>\<open>headers\<close>.\<close>

definition headers :: "ref \<Rightarrow> (string \<times> string) list prog" where
  "headers self =
     bnd (get_folder self) (\<lambda>f.
     bnd (get_access_token (account f)) (\<lambda>tok.
     ret [(''Authorization'', ''Bearer '' @ tok), (''Content-Type'', ''application/json'')]))"

text \<open>\<^verbatim>\<open>_json_to_folder\<close>: the six subscripts are evaluated left to right, then the constructor.\<close>

definition json_to_folder :: "ref \<Rightarrow> json \<Rightarrow> ref prog" where
  "json_to_folder acct json_value =
     bnd (lift (getitem json_value ''Id'')) (\<lambda>a1.
     bnd (lift (getitem json_value ''DisplayName'')) (\<lambda>a2.
     bnd (lift (getitem json_value ''ParentFolderId'')) (\<lambda>a3.
     bnd (lift (getitem json_value ''ChildFolderCount'')) (\<lambda>a4.
     bnd (lift (getitem json_value ''UnreadItemCount'')) (\<lambda>a5.
     bnd (lift (getitem json_value ''TotalItemCount'')) (\<lambda>a6.
     Folder acct a1 a2 a3 a4 a5 a6))))))"

text \<open>A list comprehension whose body may raise: left to right, the first exception ends it.\<close>

fun comprehension :: "('a \<Rightarrow> 'b prog) \<Rightarrow> 'a list \<Rightarrow> 'b list prog" where
  "comprehension f [] = ret []"
| "comprehension f (x # xs) =
     bnd (f x) (\<lambda>y. bnd (comprehension f xs) (\<lambda>ys. ret (y # ys)))"

text \<open>\<^verbatim>\<open>_json_to_folders\<close>.\<close>

definition json_to_folders :: "ref \<Rightarrow> json \<Rightarrow> ref list prog" where
  "json_to_folders acct json_value =
     bnd (lift (getitem json_value ''value'')) (\<lambda>v.
     bnd (lift (py_iter v)) (\<lambda>items.
     comprehension (json_to_folder acct) items))"

text \<open>
  The four functions of \<^verbatim>\<open>requests\<close> the module calls: each sends one request made of the
  arguments it was given and returns the response, or raises.
\<close>

definition send :: "transport \<Rightarrow> http_request \<Rightarrow> http_response prog" where
  "send net rq = bnd (emit (EvRequest rq)) (\<lambda>_. lift (net rq))"

definition requests_patch ::
  "transport \<Rightarrow> string \<Rightarrow> (string \<times> string) list \<Rightarrow> string \<Rightarrow> http_response prog" where
  "requests_patch net endpoint hdrs payload =
     send net \<lparr>req_method = PATCH, req_url = endpoint, req_headers = hdrs, req_data = Some payload\<rparr>"

definition requests_post ::
  "transport \<Rightarrow> string \<Rightarrow> (string \<times> string) list \<Rightarrow> string \<Rightarrow> http_response prog" where
  "requests_post net endpoint hdrs payload =
     send net \<lparr>req_method = POST, req_url = endpoint, req_headers = hdrs, req_data = Some payload\<rparr>"

definition requests_get ::
  "transport \<Rightarrow> string \<Rightarrow> (string \<times> string) list \<Rightarrow> http_response prog" where
  "requests_get net endpoint hdrs =
     send net \<lparr>req_method = GET, req_url = endpoint, req_headers = hdrs, req_data = None\<rparr>"

definition requests_delete ::
  "transport \<Rightarrow> string \<Rightarrow> (string \<times> string) list \<Rightarrow> http_response prog" where
  "requests_delete net endpoint hdrs =
     send net \<lparr>req_method = DELETE, req_url = endpoint, req_headers = hdrs, req_data = None\<rparr>"

text \<open>\<^verbatim>\<open>r.json()\<close>.\<close>

definition r_json :: "http_response \<Rightarrow> json prog" where
  "r_json r = bnd (emit EvJson) (\<lambda>_.
     case json_body r of None \<Rightarrow> raise JSONDecodeError | Some j \<Rightarrow> ret j)"

text \<open>\<^verbatim>\<open>self.id\<close> and \<^verbatim>\<open>self.account\<close>.\<close>

definition self_id :: "ref \<Rightarrow> json prog" where
  "self_id self = bnd (get_folder self) (\<lambda>f. ret (folder_id f))"

definition self_account :: "ref \<Rightarrow> ref prog" where
  "self_account self = bnd (get_folder self) (\<lambda>f. ret (account f))"

text \<open>The message every operation but \<^verbatim>\<open>messages\<close> raises AuthError with.\<close>

definition auth_message :: "int \<Rightarrow> string" where
  "auth_message s = ''Access Token Error, Received '' @ str s @ '' from Outlook REST Endpoint''"

definition rename_folder :: "transport \<Rightarrow> ref \<Rightarrow> string \<Rightarrow> ref prog" where
  \<open>rename_folder net self new_folder_name =
     bnd (headers self) (\<lambda>hdrs.
     bnd (self_id self) (\<lambda>i.
     bnd (lift (str_add ''https://outlook.office.com/api/v2.0/me/MailFolders/'' i)) (\<lambda>endpoint.
     let payload = ''{ "DisplayName": "'' @ new_folder_name @ ''"}'' in
     bnd (requests_patch net endpoint hdrs payload) (\<lambda>r.
     if 399 < status_code r \<and> status_code r < 452
     then raise (AuthError (auth_message (status_code r)))
     else bnd (r_json r) (\<lambda>return_folder.
          bnd (self_account self) (\<lambda>acct.
          json_to_folder acct return_folder))))))\<close>

definition get_subfolders :: "transport \<Rightarrow> ref \<Rightarrow> ref list prog" where
  \<open>get_subfolders net self =
     bnd (headers self) (\<lambda>hdrs.
     bnd (self_id self) (\<lambda>i.
     bnd (lift (str_add ''https://outlook.office.com/api/v2.0/me/MailFolders/'' i)) (\<lambda>e.
     let endpoint = e @ ''/childfolders'' in
     bnd (requests_get net endpoint hdrs) (\<lambda>r.
     if 399 < status_code r \<and> status_code r < 452
     then raise (AuthError (auth_message (status_code r)))
     else bnd (self_account self) (\<lambda>acct.
          bnd (r_json r) (\<lambda>j.
          json_to_folders acct j))))))\<close>

text \<open>\<^verbatim>\<open>delete_folder\<close> has no \<^verbatim>\<open>else\<close> branch: outside the band it falls through and returns None.\<close>

definition delete_folder :: "transport \<Rightarrow> ref \<Rightarrow> unit prog" where
  \<open>delete_folder net self =
     bnd (headers self) (\<lambda>hdrs.
     bnd (self_id self) (\<lambda>i.
     bnd (lift (str_add ''https://outlook.office.com/api/v2.0/me/MailFolders/'' i)) (\<lambda>endpoint.
     bnd (requests_delete net endpoint hdrs) (\<lambda>r.
     if 399 < status_code r \<and> status_code r < 452
     then raise (AuthError (auth_message (status_code r)))
     else ret ()))))\<close>

definition move_folder :: "transport \<Rightarrow> ref \<Rightarrow> string \<Rightarrow> ref prog" where
  \<open>move_folder net self destination_folder =
     bnd (headers self) (\<lambda>hdrs.
     bnd (self_id self) (\<lambda>i.
     bnd (lift (str_add ''https://outlook.office.com/api/v2.0/me/MailFolders/'' i)) (\<lambda>e.
     let endpoint = e @ ''/move'';
         payload = ''{ "DestinationId": "'' @ destination_folder @ ''"}'' in
     bnd (requests_post net endpoint hdrs payload) (\<lambda>r.
     if 399 < status_code r \<and> status_code r < 452
     then raise (AuthError (auth_message (status_code r)))
     else bnd (r_json r) (\<lambda>return_folder.
          bnd (self_account self) (\<lambda>acct.
          json_to_folder acct return_folder))))))\<close>

definition copy_folder :: "transport \<Rightarrow> ref \<Rightarrow> string \<Rightarrow> ref prog" where
  \<open>copy_folder net self destination_folder =
     bnd (headers self) (\<lambda>hdrs.
     bnd (self_id self) (\<lambda>i.
     bnd (lift (str_add ''https://outlook.office.com/api/v2.0/me/MailFolders/'' i)) (\<lambda>e.
     let endpoint = e @ ''/copy'';
         payload = ''{ "DestinationId": "'' @ destination_folder @ ''"}'' in
     bnd (requests_post net endpoint hdrs payload) (\<lambda>r.
     if 399 < status_code r \<and> status_code r < 452
     then raise (AuthError (auth_message (status_code r)))
     else bnd (r_json r) (\<lambda>return_folder.
          bnd (self_account self) (\<lambda>acct.
          json_to_folder acct return_folder))))))\<close>

definition create_child_folder :: "transport \<Rightarrow> ref \<Rightarrow> string \<Rightarrow> ref prog" where
  \<open>create_child_folder net self folder_name' =
     bnd (headers self) (\<lambda>hdrs.
     bnd (self_id self) (\<lambda>i.
     bnd (lift (str_add ''https://outlook.office.com/api/v2.0/me/MailFolders/'' i)) (\<lambda>e.
     let endpoint = e @ ''/childfolders'';
         payload = ''{ "DisplayName": "'' @ folder_name' @ ''"}'' in
     bnd (requests_post net endpoint hdrs payload) (\<lambda>r.
     if 399 < status_code r \<and> status_code r < 452
     then raise (AuthError (auth_message (status_code r)))
     else bnd (r_json r) (\<lambda>return_folder.
          bnd (self_account self) (\<lambda>acct.
          json_to_folder acct return_folder))))))\<close>

text \<open>
  \<^verbatim>\<open>messages\<close>. \<^verbatim>\<open>Message._json_to_messages\<close> (\<^verbatim>\<open>pyOutlook.core.message\<close>) is not part of the
  source at hand: it is the parameter \<open>json_to_messages\<close>, a factory from the account and the
  decoded JSON to the messages, which may raise.
\<close>

definition messages :: "(ref \<Rightarrow> json \<Rightarrow> error + 'm) \<Rightarrow> transport \<Rightarrow> ref \<Rightarrow> 'm prog" where
  \<open>messages json_to_messages net self =
     bnd (headers self) (\<lambda>hdrs.
     bnd (self_id self) (\<lambda>i.
     bnd (lift (str_add ''https://outlook.office.com/api/v2.0/me/MailFolders/'' i)) (\<lambda>e.
     bnd (requests_get net (e @ ''/messages'') hdrs) (\<lambda>r.
     if status_code r = 401
     then raise (AuthError ''Access Token Error, Received 401 from Outlook REST Endpoint'')
     else bnd (self_account self) (\<lambda>acct.
          bnd (r_json r) (\<lambda>j.
          lift (json_to_messages acct j)))))))\<close>

subsection \<open>What a JSON text is\<close>

text \<open>
  The grammar of RFC 8259, as a recogniser that reads the text one character at a time with a
  stack of the open objects and arrays. It is the yardstick for the request bodies, which the
  module builds by concatenation; the module itself never calls it.
\<close>

datatype jctx = InObject | InArray

datatype jmode =
    MValue
  | MArrayStart
  | MObjectStart
  | MKey
  | MColon
  | MAfter
  | MString bool
  | MEscape bool
  | MHex nat bool
  | MLiteral string
  | MMinus
  | MZero
  | MInt
  | MDot
  | MFrac
  | MExp
  | MExpSign
  | MExpDigits
  | MFail

definition is_ws :: "char \<Rightarrow> bool" where
  "is_ws c \<longleftrightarrow> c = CHR '' '' \<or> c = CHR 0x09 \<or> c = CHR 0x0A \<or> c = CHR 0x0D"

definition is_digit :: "char \<Rightarrow> bool" where
  "is_digit c \<longleftrightarrow> c \<in> set ''0123456789''"

definition is_hex :: "char \<Rightarrow> bool" where
  "is_hex c \<longleftrightarrow> c \<in> set ''0123456789abcdefABCDEF''"

definition is_control :: "char \<Rightarrow> bool" where
  "is_control c \<longleftrightarrow> (of_char c :: nat) < 32"

text \<open>The first character of a value.\<close>

definition start_value :: "char \<Rightarrow> jctx list \<Rightarrow> jmode \<times> jctx list" where
  \<open>start_value c st =
     (if c = CHR ''{'' then (MObjectStart, InObject # st)
      else if c = CHR ''['' then (MArrayStart, InArray # st)
      else if c = CHR 0x22 then (MString False, st)
      else if c = CHR ''-'' then (MMinus, st)
      else if c = CHR ''0'' then (MZero, st)
      else if is_digit c then (MInt, st)
      else if c = CHR ''t'' then (MLiteral ''rue'', st)
      else if c = CHR ''f'' then (MLiteral ''alse'', st)
      else if c = CHR ''n'' then (MLiteral ''ull'', st)
      else (MFail, st))\<close>

text \<open>The character after a complete value: a separator or the end of what encloses it.\<close>

definition after_value :: "char \<Rightarrow> jctx list \<Rightarrow> jmode \<times> jctx list" where
  "after_value c st =
     (if is_ws c then (MAfter, st)
      else case st of
          [] \<Rightarrow> (MFail, st)
        | InObject # rest \<Rightarrow>
            if c = CHR '','' then (MKey, st)
            else if c = CHR ''}'' then (MAfter, rest) else (MFail, st)
        | InArray # rest \<Rightarrow>
            if c = CHR '','' then (MValue, st)
            else if c = CHR '']'' then (MAfter, rest) else (MFail, st))"

fun jstep :: "jmode \<times> jctx list \<Rightarrow> char \<Rightarrow> jmode \<times> jctx list" where
  \<open>jstep (MValue, st) c = (if is_ws c then (MValue, st) else start_value c st)\<close>
| \<open>jstep (MArrayStart, st) c =
     (if is_ws c then (MArrayStart, st)
      else if c = CHR '']'' then (MAfter, tl st) else start_value c st)\<close>
| \<open>jstep (MObjectStart, st) c =
     (if is_ws c then (MObjectStart, st)
      else if c = CHR ''}'' then (MAfter, tl st)
      else if c = CHR 0x22 then (MString True, st) else (MFail, st))\<close>
| \<open>jstep (MKey, st) c =
     (if is_ws c then (MKey, st)
      else if c = CHR 0x22 then (MString True, st) else (MFail, st))\<close>
| \<open>jstep (MColon, st) c =
     (if is_ws c then (MColon, st)
      else if c = CHR '':'' then (MValue, st) else (MFail, st))\<close>
| \<open>jstep (MAfter, st) c = after_value c st\<close>
| \<open>jstep (MString k, st) c =
     (if c = CHR 0x22 then (if k then MColon else MAfter, st)
      else if c = CHR 0x5C then (MEscape k, st)
      else if is_control c then (MFail, st) else (MString k, st))\<close>
| \<open>jstep (MEscape k, st) c =
     (if c = CHR 0x22 \<or> c = CHR 0x5C \<or> c \<in> set ''/bfnrt'' then (MString k, st)
      else if c = CHR ''u'' then (MHex 4 k, st) else (MFail, st))\<close>
| \<open>jstep (MHex n k, st) c =
     (if is_hex c then (if n \<le> 1 then MString k else MHex (n - 1) k, st) else (MFail, st))\<close>
| \<open>jstep (MLiteral [], st) c = (MFail, st)\<close>
| \<open>jstep (MLiteral (x # xs), st) c =
     (if c = x then (if xs = [] then MAfter else MLiteral xs, st) else (MFail, st))\<close>
| \<open>jstep (MMinus, st) c =
     (if c = CHR ''0'' then (MZero, st) else if is_digit c then (MInt, st) else (MFail, st))\<close>
| \<open>jstep (MZero, st) c =
     (if c = CHR ''.'' then (MDot, st)
      else if c = CHR ''e'' \<or> c = CHR ''E'' then (MExp, st) else after_value c st)\<close>
| \<open>jstep (MInt, st) c =
     (if is_digit c then (MInt, st)
      else if c = CHR ''.'' then (MDot, st)
      else if c = CHR ''e'' \<or> c = CHR ''E'' then (MExp, st) else after_value c st)\<close>
| \<open>jstep (MDot, st) c = (if is_digit c then (MFrac, st) else (MFail, st))\<close>
| \<open>jstep (MFrac, st) c =
     (if is_digit c then (MFrac, st)
      else if c = CHR ''e'' \<or> c = CHR ''E'' then (MExp, st) else after_value c st)\<close>
| \<open>jstep (MExp, st) c =
     (if c = CHR ''+'' \<or> c = CHR ''-'' then (MExpSign, st)
      else if is_digit c then (MExpDigits, st) else (MFail, st))\<close>
| \<open>jstep (MExpSign, st) c = (if is_digit c then (MExpDigits, st) else (MFail, st))\<close>
| \<open>jstep (MExpDigits, st) c = (if is_digit c then (MExpDigits, st) else after_value c st)\<close>
| \<open>jstep (MFail, st) c = (MFail, st)\<close>

definition accepting :: "jmode \<times> jctx list \<Rightarrow> bool" where
  "accepting ms \<longleftrightarrow> snd ms = [] \<and> fst ms \<in> {MAfter, MZero, MInt, MFrac, MExpDigits}"

definition json_valid :: "string \<Rightarrow> bool" where
  "json_valid s = accepting (foldl jstep (MValue, []) s)"

subsection \<open>Notions the statements use\<close>

text \<open>The six keys \<^verbatim>\<open>_json_to_folder\<close> subscripts, in its order.\<close>

definition folder_keys :: "string list" where
  "folder_keys = [''Id'', ''DisplayName'', ''ParentFolderId'', ''ChildFolderCount'',
                  ''UnreadItemCount'', ''TotalItemCount'']"

text \<open>The requests a run has sent: those in the trace of the world after, past the trace before.\<close>

fun requests_of :: "event list \<Rightarrow> http_request list" where
  "requests_of [] = []"
| "requests_of (EvRequest rq # es) = rq # requests_of es"
| "requests_of (EvJson # es) = requests_of es"

definition issued :: "world \<Rightarrow> world \<Rightarrow> http_request list" where
  "issued w w' = requests_of (drop (length (trace w)) (trace w'))"

text \<open>
  What \<^verbatim>\<open>rename_folder\<close>, \<^verbatim>\<open>move_folder\<close>, \<^verbatim>\<open>copy_folder\<close> and \<^verbatim>\<open>create_child_folder\<close> all do
  with the outcome of their request.
\<close>

definition folder_reply :: "ref \<Rightarrow> error + http_response \<Rightarrow> ref prog" where
  "folder_reply acct res =
     (case res of
        Inl e \<Rightarrow> raise e
      | Inr r \<Rightarrow>
          if 399 < status_code r \<and> status_code r < 452
          then raise (AuthError (auth_message (status_code r)))
          else bnd (r_json r) (json_to_folder acct))"

text \<open>
  The Folder \<open>g\<close> holds the given account and, attribute by attribute, what the six subscripts
  of \<^verbatim>\<open>_json_to_folder\<close> read in \<open>j\<close>.
\<close>

definition built_from :: "folder \<Rightarrow> ref \<Rightarrow> json \<Rightarrow> bool" where
  "built_from g acct j \<longleftrightarrow>
     account g = acct \<and>
     getitem j ''Id'' = Inr (folder_id g) \<and>
     getitem j ''DisplayName'' = Inr (folder_name g) \<and>
     getitem j ''ParentFolderId'' = Inr (parent_id g) \<and>
     getitem j ''ChildFolderCount'' = Inr (child_folder_count g) \<and>
     getitem j ''UnreadItemCount'' = Inr (unread_count g) \<and>
     getitem j ''TotalItemCount'' = Inr (total_items g)"

text \<open>
  A small world for the examples: an account with a token at reference 0 and at reference 1
  a Folder of that account with id AAA; a server that answers every request alike; and the
  folder JSON of the spec's rename scenario.
\<close>

definition example_world :: world where
  "example_world =
     \<lparr>heap = [ObjAccount \<lparr>access_token = ''tok''\<rparr>,
              ObjFolder \<lparr>account = 0, parent_id = JString ''root'', child_folder_count = JInt 0,
                         unread_count = JInt 0, total_items = JInt 0,
                         folder_name = JString ''Inbox'', folder_id = JString ''AAA''\<rparr>],
      trace = []\<rparr>"

definition answer :: "int \<Rightarrow> json option \<Rightarrow> transport" where
  "answer s b = (\<lambda>rq. Inr \<lparr>status_code = s, json_body = b\<rparr>)"

definition archive_json :: json where
  "archive_json =
     JObject [(''Id'', JString ''AAA''), (''DisplayName'', JString ''Archive''),
              (''ParentFolderId'', JString ''root''), (''ChildFolderCount'', JInt 0),
              (''UnreadItemCount'', JInt 0), (''TotalItemCount'', JInt 0)]"

section \<open>How each operation runs\<close>

lemma lookup_trace [simp]: "lookup (w\<lparr>trace := t\<rparr>) r = lookup w r"
  by (simp add: lookup_def)

lemma bnd_ret [simp]: "bnd (ret x) k = k x"
  by (simp add: bnd_def ret_def)

lemma bnd_raise [simp]: "bnd (raise e) k = raise e"
  by (simp add: bnd_def raise_def)

lemma bnd_lift_Inr [simp]: "bnd (lift (Inr x)) k = k x"
  by (simp add: bnd_def lift_def)

lemma bnd_lift_Inl [simp]: "bnd (lift (Inl e)) k = raise e"
  by (simp add: bnd_def lift_def raise_def)

lemma bnd_assoc: "bnd (bnd m k) h = bnd m (\<lambda>x. bnd (k x) h)"
  by (auto simp: bnd_def fun_eq_iff split: prod.splits sum.splits)

lemma get_folder_run:
  "lookup w self = Some (ObjFolder f) \<Longrightarrow> bnd (get_folder self) k w = k f w"
  by (simp add: bnd_def get_folder_def)

lemma get_access_token_run:
  "lookup w a = Some (ObjAccount acct) \<Longrightarrow> bnd (get_access_token a) k w = k (access_token acct) w"
  by (simp add: bnd_def get_access_token_def)

lemma headers_run:
  assumes "lookup w self = Some (ObjFolder f)" "lookup w (account f) = Some (ObjAccount a)"
  shows "bnd (headers self) k w =
         k [(''Authorization'', ''Bearer '' @ access_token a), (''Content-Type'', ''application/json'')] w"
  using assms by (simp add: headers_def bnd_assoc get_folder_run get_access_token_run)

lemma self_id_run:
  "lookup w self = Some (ObjFolder f) \<Longrightarrow> bnd (self_id self) k w = k (folder_id f) w"
  by (simp add: self_id_def bnd_assoc get_folder_run)

lemma self_account_run:
  "lookup w self = Some (ObjFolder f) \<Longrightarrow> bnd (self_account self) k w = k (account f) w"
  by (simp add: self_account_def bnd_assoc get_folder_run)

lemma send_run:
  "bnd (send net rq) k w =
     (case net rq of
        Inl e \<Rightarrow> (Inl e, w\<lparr>trace := trace w @ [EvRequest rq]\<rparr>)
      | Inr r \<Rightarrow> k r (w\<lparr>trace := trace w @ [EvRequest rq]\<rparr>))"
  by (simp add: send_def bnd_def emit_def lift_def split: sum.splits)

lemma r_json_run:
  "bnd (r_json r) k w =
     (case json_body r of
        None \<Rightarrow> (Inl JSONDecodeError, w\<lparr>trace := trace w @ [EvJson]\<rparr>)
      | Some j \<Rightarrow> k j (w\<lparr>trace := trace w @ [EvJson]\<rparr>))"
  by (simp add: r_json_def bnd_def emit_def raise_def ret_def split: option.splits)

lemma if_app: "(if c then f else g) w = (if c then f w else g w)"
  by simp

lemma rename_folder_run:
  assumes "lookup w self = Some (ObjFolder f)" "folder_id f = JString i"
    "lookup w (account f) = Some (ObjAccount a)"
  shows \<open>rename_folder net self n w =
     (let rq = \<lparr>req_method = PATCH,
                req_url = ''https://outlook.office.com/api/v2.0/me/MailFolders/'' @ i,
                req_headers = [(''Authorization'', ''Bearer '' @ access_token a),
                               (''Content-Type'', ''application/json'')],
                req_data = Some (''{ "DisplayName": "'' @ n @ ''"}'')\<rparr>
      in folder_reply (account f) (net rq) (w\<lparr>trace := trace w @ [EvRequest rq]\<rparr>))\<close>
  using assms
  by (simp add: rename_folder_def headers_run self_id_run Let_def requests_patch_def send_run
      folder_reply_def raise_def if_app r_json_run self_account_run
      split: sum.splits option.splits)


lemma get_subfolders_run:
  assumes "lookup w self = Some (ObjFolder f)" "folder_id f = JString i"
    "lookup w (account f) = Some (ObjAccount a)"
  shows \<open>get_subfolders net self w =
     (let rq = \<lparr>req_method = GET,
                req_url = ''https://outlook.office.com/api/v2.0/me/MailFolders/'' @ i @ ''/childfolders'',
                req_headers = [(''Authorization'', ''Bearer '' @ access_token a),
                               (''Content-Type'', ''application/json'')],
                req_data = None\<rparr>;
          w1 = w\<lparr>trace := trace w @ [EvRequest rq]\<rparr>
      in case net rq of
           Inl e \<Rightarrow> (Inl e, w1)
         | Inr r \<Rightarrow>
             if 399 < status_code r \<and> status_code r < 452
             then (Inl (AuthError (auth_message (status_code r))), w1)
             else bnd (r_json r) (json_to_folders (account f)) w1)\<close>
  using assms
  by (simp add: get_subfolders_def headers_run self_id_run Let_def requests_get_def send_run
      raise_def if_app r_json_run self_account_run
      split: sum.splits option.splits)

lemma delete_folder_run:
  assumes "lookup w self = Some (ObjFolder f)" "folder_id f = JString i"
    "lookup w (account f) = Some (ObjAccount a)"
  shows \<open>delete_folder net self w =
     (let rq = \<lparr>req_method = DELETE,
                req_url = ''https://outlook.office.com/api/v2.0/me/MailFolders/'' @ i,
                req_headers = [(''Authorization'', ''Bearer '' @ access_token a),
                               (''Content-Type'', ''application/json'')],
                req_data = None\<rparr>;
          w1 = w\<lparr>trace := trace w @ [EvRequest rq]\<rparr>
      in case net rq of
           Inl e \<Rightarrow> (Inl e, w1)
         | Inr r \<Rightarrow>
             if 399 < status_code r \<and> status_code r < 452
             then (Inl (AuthError (auth_message (status_code r))), w1)
             else (Inr (), w1))\<close>
  using assms
  by (simp add: delete_folder_def headers_run self_id_run Let_def requests_delete_def send_run
      raise_def ret_def if_app
      split: sum.splits option.splits)

lemma move_folder_run:
  assumes "lookup w self = Some (ObjFolder f)" "folder_id f = JString i"
    "lookup w (account f) = Some (ObjAccount a)"
  shows \<open>move_folder net self d w =
     (let rq = \<lparr>req_method = POST,
                req_url = ''https://outlook.office.com/api/v2.0/me/MailFolders/'' @ i @ ''/move'',
                req_headers = [(''Authorization'', ''Bearer '' @ access_token a),
                               (''Content-Type'', ''application/json'')],
                req_data = Some (''{ "DestinationId": "'' @ d @ ''"}'')\<rparr>
      in folder_reply (account f) (net rq) (w\<lparr>trace := trace w @ [EvRequest rq]\<rparr>))\<close>
  using assms
  by (simp add: move_folder_def headers_run self_id_run Let_def requests_post_def send_run
      folder_reply_def raise_def if_app r_json_run self_account_run
      split: sum.splits option.splits)

lemma copy_folder_run:
  assumes "lookup w self = Some (ObjFolder f)" "folder_id f = JString i"
    "lookup w (account f) = Some (ObjAccount a)"
  shows \<open>copy_folder net self d w =
     (let rq = \<lparr>req_method = POST,
                req_url = ''https://outlook.office.com/api/v2.0/me/MailFolders/'' @ i @ ''/copy'',
                req_headers = [(''Authorization'', ''Bearer '' @ access_token a),
                               (''Content-Type'', ''application/json'')],
                req_data = Some (''{ "DestinationId": "'' @ d @ ''"}'')\<rparr>
      in folder_reply (account f) (net rq) (w\<lparr>trace := trace w @ [EvRequest rq]\<rparr>))\<close>
  using assms
  by (simp add: copy_folder_def headers_run self_id_run Let_def requests_post_def send_run
      folder_reply_def raise_def if_app r_json_run self_account_run
      split: sum.splits option.splits)

lemma create_child_folder_run:
  assumes "lookup w self = Some (ObjFolder f)" "folder_id f = JString i"
    "lookup w (account f) = Some (ObjAccount a)"
  shows \<open>create_child_folder net self n w =
     (let rq = \<lparr>req_method = POST,
                req_url = ''https://outlook.office.com/api/v2.0/me/MailFolders/'' @ i @ ''/childfolders'',
                req_headers = [(''Authorization'', ''Bearer '' @ access_token a),
                               (''Content-Type'', ''application/json'')],
                req_data = Some (''{ "DisplayName": "'' @ n @ ''"}'')\<rparr>
      in folder_reply (account f) (net rq) (w\<lparr>trace := trace w @ [EvRequest rq]\<rparr>))\<close>
  using assms
  by (simp add: create_child_folder_def headers_run self_id_run Let_def requests_post_def send_run
      folder_reply_def raise_def if_app r_json_run self_account_run
      split: sum.splits option.splits)

lemma messages_run:
  assumes "lookup w self = Some (ObjFolder f)" "folder_id f = JString i"
    "lookup w (account f) = Some (ObjAccount a)"
  shows \<open>messages jtm net self w =
     (let rq = \<lparr>req_method = GET,
                req_url = ''https://outlook.office.com/api/v2.0/me/MailFolders/'' @ i @ ''/messages'',
                req_headers = [(''Authorization'', ''Bearer '' @ access_token a),
                               (''Content-Type'', ''application/json'')],
                req_data = None\<rparr>;
          w1 = w\<lparr>trace := trace w @ [EvRequest rq]\<rparr>
      in case net rq of
           Inl e \<Rightarrow> (Inl e, w1)
         | Inr r \<Rightarrow>
             if status_code r = 401
             then (Inl (AuthError ''Access Token Error, Received 401 from Outlook REST Endpoint''), w1)
             else bnd (r_json r) (\<lambda>j. lift (jtm (account f) j)) w1)\<close>
  using assms
  by (simp add: messages_def headers_run self_id_run Let_def requests_get_def send_run
      raise_def if_app r_json_run self_account_run
      split: sum.splits option.splits)

section \<open>Decoding a folder\<close>

lemma json_to_folder_complete:
  assumes "map_of kvs ''Id'' = Some a1" "map_of kvs ''DisplayName'' = Some a2"
    "map_of kvs ''ParentFolderId'' = Some a3" "map_of kvs ''ChildFolderCount'' = Some a4"
    "map_of kvs ''UnreadItemCount'' = Some a5" "map_of kvs ''TotalItemCount'' = Some a6"
  shows "json_to_folder acct (JObject kvs) w =
     (Inr (length (heap w)),
      w\<lparr>heap := heap w @ [ObjFolder \<lparr>account = acct, parent_id = a3, child_folder_count = a4,
             unread_count = a5, total_items = a6, folder_name = a2, folder_id = a1\<rparr>]\<rparr>)"
  using assms by (simp add: json_to_folder_def Folder_def alloc_def)

lemma json_to_folder_cases:
  "(\<exists>e. json_to_folder acct j w = (Inl e, w)) \<or>
   (\<exists>g. json_to_folder acct j w = (Inr (length (heap w)), w\<lparr>heap := heap w @ [ObjFolder g]\<rparr>) \<and>
        account g = acct \<and>
        getitem j ''Id'' = Inr (folder_id g) \<and>
        getitem j ''DisplayName'' = Inr (folder_name g) \<and>
        getitem j ''ParentFolderId'' = Inr (parent_id g) \<and>
        getitem j ''ChildFolderCount'' = Inr (child_folder_count g) \<and>
        getitem j ''UnreadItemCount'' = Inr (unread_count g) \<and>
        getitem j ''TotalItemCount'' = Inr (total_items g))"
proof (cases "\<exists>e k. k \<in> set folder_keys \<and> getitem j k = Inl e")
  case True
  then show ?thesis
    apply (simp add: folder_keys_def json_to_folder_def)
    apply (cases "getitem j ''Id''"; simp add: raise_def)
    apply (cases "getitem j ''DisplayName''"; simp add: raise_def)
    apply (cases "getitem j ''ParentFolderId''"; simp add: raise_def)
    apply (cases "getitem j ''ChildFolderCount''"; simp add: raise_def)
    apply (cases "getitem j ''UnreadItemCount''"; simp add: raise_def)
    apply (cases "getitem j ''TotalItemCount''"; simp add: raise_def)
    apply auto
    done
next
  case False
  then obtain a1 a2 a3 a4 a5 a6 where g:
    "getitem j ''Id'' = Inr a1" "getitem j ''DisplayName'' = Inr a2"
    "getitem j ''ParentFolderId'' = Inr a3" "getitem j ''ChildFolderCount'' = Inr a4"
    "getitem j ''UnreadItemCount'' = Inr a5" "getitem j ''TotalItemCount'' = Inr a6"
    by (simp add: folder_keys_def) (metis sum.exhaust)
  show ?thesis
    apply (rule disjI2)
    apply (rule exI [where x = "\<lparr>account = acct, parent_id = a3, child_folder_count = a4,
             unread_count = a5, total_items = a6, folder_name = a2, folder_id = a1\<rparr>"])
    apply (simp add: g json_to_folder_def Folder_def alloc_def)
    done
qed

lemma json_to_folder_object:
  "json_to_folder acct (JObject kvs) w =
    (case map_of kvs ''Id'' of None \<Rightarrow> (Inl (KeyError ''Id''), w) | Some a1 \<Rightarrow>
     case map_of kvs ''DisplayName'' of None \<Rightarrow> (Inl (KeyError ''DisplayName''), w) | Some a2 \<Rightarrow>
     case map_of kvs ''ParentFolderId'' of None \<Rightarrow> (Inl (KeyError ''ParentFolderId''), w) | Some a3 \<Rightarrow>
     case map_of kvs ''ChildFolderCount'' of None \<Rightarrow> (Inl (KeyError ''ChildFolderCount''), w) | Some a4 \<Rightarrow>
     case map_of kvs ''UnreadItemCount'' of None \<Rightarrow> (Inl (KeyError ''UnreadItemCount''), w) | Some a5 \<Rightarrow>
     case map_of kvs ''TotalItemCount'' of None \<Rightarrow> (Inl (KeyError ''TotalItemCount''), w) | Some a6 \<Rightarrow>
       (Inr (length (heap w)),
        w\<lparr>heap := heap w @ [ObjFolder \<lparr>account = acct, parent_id = a3, child_folder_count = a4,
             unread_count = a5, total_items = a6, folder_name = a2, folder_id = a1\<rparr>]\<rparr>))"
  by (simp add: json_to_folder_def Folder_def alloc_def raise_def split: option.splits)

section \<open>Status codes and single folders\<close>

lemma folder_reply_band:
  assumes "net rq = Inr r" "400 \<le> status_code r" "status_code r \<le> 451"
  shows "folder_reply acct (net rq) w1 = (Inl (AuthError (auth_message (status_code r))), w1)"
  using assms by (simp add: folder_reply_def raise_def)

lemma str_404: "str 404 = ''404''"
  by (simp add: str_def str_nat.simps digit_char_def)

lemma example_self: "lookup example_world 1 =
    Some (ObjFolder \<lparr>account = 0, parent_id = JString ''root'', child_folder_count = JInt 0,
                     unread_count = JInt 0, total_items = JInt 0,
                     folder_name = JString ''Inbox'', folder_id = JString ''AAA''\<rparr>)"
  by (simp add: lookup_def example_world_def)

lemma example_account: "lookup example_world 0 = Some (ObjAccount \<lparr>access_token = ''tok''\<rparr>)"
  by (simp add: lookup_def example_world_def)

text \<open>
  C1. Whenever the server answers with a status code \<open>s\<close> from 400 to 451, each of
  \<^verbatim>\<open>rename_folder\<close>, \<^verbatim>\<open>get_subfolders\<close>, \<^verbatim>\<open>delete_folder\<close>, \<^verbatim>\<open>move_folder\<close>, \<^verbatim>\<open>copy_folder\<close> and
  \<^verbatim>\<open>create_child_folder\<close> raises AuthError with the message that carries \<open>s\<close> in decimal, and
  the world it leaves differs from the one it found by the one request sent: no call of
  \<^verbatim>\<open>r.json()\<close> is in the trace and no object was made.
\<close>

theorem auth_error_band:
  assumes "lookup w self = Some (ObjFolder f)" and "folder_id f = JString i"
    and "lookup w (account f) = Some (ObjAccount a)"
    and "400 \<le> s" and "s \<le> 451"
    and "\<forall>rq. \<exists>r. net rq = Inr r \<and> status_code r = s"
  shows
   "(\<exists>rq. rename_folder net self n w =
        (Inl (AuthError (''Access Token Error, Received '' @ str s @ '' from Outlook REST Endpoint'')),
         w\<lparr>trace := trace w @ [EvRequest rq]\<rparr>)) \<and>
    (\<exists>rq. get_subfolders net self w =
        (Inl (AuthError (''Access Token Error, Received '' @ str s @ '' from Outlook REST Endpoint'')),
         w\<lparr>trace := trace w @ [EvRequest rq]\<rparr>)) \<and>
    (\<exists>rq. delete_folder net self w =
        (Inl (AuthError (''Access Token Error, Received '' @ str s @ '' from Outlook REST Endpoint'')),
         w\<lparr>trace := trace w @ [EvRequest rq]\<rparr>)) \<and>
    (\<exists>rq. move_folder net self d w =
        (Inl (AuthError (''Access Token Error, Received '' @ str s @ '' from Outlook REST Endpoint'')),
         w\<lparr>trace := trace w @ [EvRequest rq]\<rparr>)) \<and>
    (\<exists>rq. copy_folder net self d w =
        (Inl (AuthError (''Access Token Error, Received '' @ str s @ '' from Outlook REST Endpoint'')),
         w\<lparr>trace := trace w @ [EvRequest rq]\<rparr>)) \<and>
    (\<exists>rq. create_child_folder net self n w =
        (Inl (AuthError (''Access Token Error, Received '' @ str s @ '' from Outlook REST Endpoint'')),
         w\<lparr>trace := trace w @ [EvRequest rq]\<rparr>))"
proof -
  have band: "\<And>rq. \<exists>r. net rq = Inr r \<and> 400 \<le> status_code r \<and> status_code r \<le> 451
                  \<and> status_code r = s"
    using assms(4-6) by metis
  have reply: "\<And>rq w1. folder_reply (account f) (net rq) w1 = (Inl (AuthError (auth_message s)), w1)"
    using band folder_reply_band by metis
  have c1: "\<exists>rq. rename_folder net self n w =
      (Inl (AuthError (auth_message s)), w\<lparr>trace := trace w @ [EvRequest rq]\<rparr>)"
    unfolding rename_folder_run [OF assms(1-3)] Let_def reply by (rule exI, rule refl)
  have c2: "\<exists>rq. get_subfolders net self w =
      (Inl (AuthError (auth_message s)), w\<lparr>trace := trace w @ [EvRequest rq]\<rparr>)"
  proof -
    let ?rq = "\<lparr>req_method = GET,
                req_url = ''https://outlook.office.com/api/v2.0/me/MailFolders/'' @ i @ ''/childfolders'',
                req_headers = [(''Authorization'', ''Bearer '' @ access_token a),
                               (''Content-Type'', ''application/json'')],
                req_data = None\<rparr>"
    obtain r where "net ?rq = Inr r" "400 \<le> status_code r" "status_code r \<le> 451" "status_code r = s"
      using band by blast
    then show ?thesis
      by (intro exI [where x = ?rq]) (simp add: get_subfolders_run [OF assms(1-3)] Let_def)
  qed
  have c3: "\<exists>rq. delete_folder net self w =
      (Inl (AuthError (auth_message s)), w\<lparr>trace := trace w @ [EvRequest rq]\<rparr>)"
  proof -
    let ?rq = "\<lparr>req_method = DELETE,
                req_url = ''https://outlook.office.com/api/v2.0/me/MailFolders/'' @ i,
                req_headers = [(''Authorization'', ''Bearer '' @ access_token a),
                               (''Content-Type'', ''application/json'')],
                req_data = None\<rparr>"
    obtain r where "net ?rq = Inr r" "400 \<le> status_code r" "status_code r \<le> 451" "status_code r = s"
      using band by blast
    then show ?thesis
      by (intro exI [where x = ?rq]) (simp add: delete_folder_run [OF assms(1-3)] Let_def)
  qed
  have c4: "\<exists>rq. move_folder net self d w =
      (Inl (AuthError (auth_message s)), w\<lparr>trace := trace w @ [EvRequest rq]\<rparr>)"
    unfolding move_folder_run [OF assms(1-3)] Let_def reply by (rule exI, rule refl)
  have c5: "\<exists>rq. copy_folder net self d w =
      (Inl (AuthError (auth_message s)), w\<lparr>trace := trace w @ [EvRequest rq]\<rparr>)"
    unfolding copy_folder_run [OF assms(1-3)] Let_def reply by (rule exI, rule refl)
  have c6: "\<exists>rq. create_child_folder net self n w =
      (Inl (AuthError (auth_message s)), w\<lparr>trace := trace w @ [EvRequest rq]\<rparr>)"
    unfolding create_child_folder_run [OF assms(1-3)] Let_def reply by (rule exI, rule refl)
  from c1 c2 c3 c4 c5 c6 show ?thesis
    unfolding auth_message_def by (intro conjI)
qed

theorem auth_error_band_witness:
  "(\<exists>rq. rename_folder (answer 404 None) 1 ''Archive'' example_world =
        (Inl (AuthError ''Access Token Error, Received 404 from Outlook REST Endpoint''),
         example_world\<lparr>trace := trace example_world @ [EvRequest rq]\<rparr>)) \<and>
    (\<exists>rq. get_subfolders (answer 404 None) 1 example_world =
        (Inl (AuthError ''Access Token Error, Received 404 from Outlook REST Endpoint''),
         example_world\<lparr>trace := trace example_world @ [EvRequest rq]\<rparr>)) \<and>
    (\<exists>rq. delete_folder (answer 404 None) 1 example_world =
        (Inl (AuthError ''Access Token Error, Received 404 from Outlook REST Endpoint''),
         example_world\<lparr>trace := trace example_world @ [EvRequest rq]\<rparr>)) \<and>
    (\<exists>rq. move_folder (answer 404 None) 1 ''BBB'' example_world =
        (Inl (AuthError ''Access Token Error, Received 404 from Outlook REST Endpoint''),
         example_world\<lparr>trace := trace example_world @ [EvRequest rq]\<rparr>)) \<and>
    (\<exists>rq. copy_folder (answer 404 None) 1 ''BBB'' example_world =
        (Inl (AuthError ''Access Token Error, Received 404 from Outlook REST Endpoint''),
         example_world\<lparr>trace := trace example_world @ [EvRequest rq]\<rparr>)) \<and>
    (\<exists>rq. create_child_folder (answer 404 None) 1 ''Archive'' example_world =
        (Inl (AuthError ''Access Token Error, Received 404 from Outlook REST Endpoint''),
         example_world\<lparr>trace := trace example_world @ [EvRequest rq]\<rparr>))"
proof -
  have h6: "\<forall>rq. \<exists>r. answer 404 None rq = Inr r \<and> status_code r = 404"
    by (simp add: answer_def)
  have h2: "folder_id \<lparr>account = 0, parent_id = JString ''root'', child_folder_count = JInt 0,
                     unread_count = JInt 0, total_items = JInt 0,
                     folder_name = JString ''Inbox'', folder_id = JString ''AAA''\<rparr> = JString ''AAA''"
    by simp
  have h3: "lookup example_world (account \<lparr>account = 0, parent_id = JString ''root'', child_folder_count = JInt 0,
                     unread_count = JInt 0, total_items = JInt 0,
                     folder_name = JString ''Inbox'', folder_id = JString ''AAA''\<rparr>)
             = Some (ObjAccount \<lparr>access_token = ''tok''\<rparr>)"
    by (simp add: example_account)
  have h4: "(400::int) \<le> 404" and h5: "(404::int) \<le> 451" by simp_all
  show ?thesis
    using auth_error_band [OF example_self h2 h3 h4 h5 h6, of "''Archive''" "''BBB''"]
    by (simp only: str_404 append.simps)
qed

text \<open>
  C2. \<^verbatim>\<open>messages\<close> raises AuthError when the status code is exactly 401. At every other status
  code, 400 and 451 among them, it raises no AuthError of its own: it calls \<^verbatim>\<open>r.json()\<close> and
  returns what \<^verbatim>\<open>Message._json_to_messages\<close> makes of the decoded body (or lets the decoding
  error out).
\<close>

theorem messages_only_401:
  assumes "lookup w self = Some (ObjFolder f)" and "folder_id f = JString i"
    and "lookup w (account f) = Some (ObjAccount a)"
    and "net \<lparr>req_method = GET,
              req_url = ''https://outlook.office.com/api/v2.0/me/MailFolders/'' @ i @ ''/messages'',
              req_headers = [(''Authorization'', ''Bearer '' @ access_token a),
                             (''Content-Type'', ''application/json'')],
              req_data = None\<rparr> = Inr r"
  shows "\<exists>rq. messages json_to_messages net self w =
     (if status_code r = 401
      then (Inl (AuthError ''Access Token Error, Received 401 from Outlook REST Endpoint''),
            w\<lparr>trace := trace w @ [EvRequest rq]\<rparr>)
      else case json_body r of
             None \<Rightarrow> (Inl JSONDecodeError, w\<lparr>trace := trace w @ [EvRequest rq, EvJson]\<rparr>)
           | Some j \<Rightarrow> (json_to_messages (account f) j,
                        w\<lparr>trace := trace w @ [EvRequest rq, EvJson]\<rparr>))"
  apply (rule exI [where x = "\<lparr>req_method = GET,
              req_url = ''https://outlook.office.com/api/v2.0/me/MailFolders/'' @ i @ ''/messages'',
              req_headers = [(''Authorization'', ''Bearer '' @ access_token a),
                             (''Content-Type'', ''application/json'')],
              req_data = None\<rparr>"])
  using assms(4)
  apply (simp add: messages_run [OF assms(1-3)] Let_def r_json_run lift_def split: option.splits)
  done

theorem messages_only_401_witness:
  "(\<exists>rq. messages (\<lambda>acct j. Inr (acct, j)) (answer 401 (Some (JObject [(''value'', JArray [])]))) 1 example_world =
      (Inl (AuthError ''Access Token Error, Received 401 from Outlook REST Endpoint''),
       example_world\<lparr>trace := trace example_world @ [EvRequest rq]\<rparr>)) \<and>
   (\<exists>rq. messages (\<lambda>acct j. Inr (acct, j)) (answer 400 (Some (JObject [(''value'', JArray [])]))) 1 example_world =
      (Inr (0, JObject [(''value'', JArray [])]),
       example_world\<lparr>trace := trace example_world @ [EvRequest rq, EvJson]\<rparr>)) \<and>
   (\<exists>rq. messages (\<lambda>acct j. Inr (acct, j)) (answer 451 (Some (JObject [(''value'', JArray [])]))) 1 example_world =
      (Inr (0, JObject [(''value'', JArray [])]),
       example_world\<lparr>trace := trace example_world @ [EvRequest rq, EvJson]\<rparr>))"
proof -
  let ?f = "\<lparr>account = 0, parent_id = JString ''root'', child_folder_count = JInt 0,
             unread_count = JInt 0, total_items = JInt 0,
             folder_name = JString ''Inbox'', folder_id = JString ''AAA''\<rparr>"
  have h2: "folder_id ?f = JString ''AAA''" by simp
  have h3: "lookup example_world (account ?f) = Some (ObjAccount \<lparr>access_token = ''tok''\<rparr>)"
    by (simp add: example_account)
  let ?b = "Some (JObject [(''value'', JArray [])])"
  have h4: "answer s b rq = Inr \<lparr>status_code = s, json_body = b\<rparr>" for s b rq
    by (simp add: answer_def)
  show ?thesis
    using messages_only_401 [OF example_self h2 h3 h4 [of 401 ?b], where json_to_messages = "\<lambda>acct j. Inr (acct, j)"]
      messages_only_401 [OF example_self h2 h3 h4 [of 400 ?b], where json_to_messages = "\<lambda>acct j. Inr (acct, j)"]
      messages_only_401 [OF example_self h2 h3 h4 [of 451 ?b], where json_to_messages = "\<lambda>acct j. Inr (acct, j)"]
    by simp
qed

text \<open>
  C3. Decoding a JSON object that has the six keys Id, DisplayName, ParentFolderId,
  ChildFolderCount, UnreadItemCount and TotalItemCount makes a new Folder whose id, name,
  parent_id, child_folder_count, unread_count and total_items are exactly the values under
  those keys, and whose account is the one given.
\<close>

theorem json_to_folder_lossless:
  assumes "map_of kvs ''Id'' = Some v_id" and "map_of kvs ''DisplayName'' = Some v_name"
    and "map_of kvs ''ParentFolderId'' = Some v_parent"
    and "map_of kvs ''ChildFolderCount'' = Some v_children"
    and "map_of kvs ''UnreadItemCount'' = Some v_unread"
    and "map_of kvs ''TotalItemCount'' = Some v_total"
  shows "\<exists>new w' g. json_to_folder acct (JObject kvs) w = (Inr new, w') \<and>
           lookup w new = None \<and> lookup w' new = Some (ObjFolder g) \<and>
           folder_id g = v_id \<and> folder_name g = v_name \<and> parent_id g = v_parent \<and>
           child_folder_count g = v_children \<and> unread_count g = v_unread \<and>
           total_items g = v_total \<and> account g = acct"
  unfolding json_to_folder_complete [OF assms]
  by (simp add: lookup_def)

theorem json_to_folder_lossless_witness:
  "\<exists>new w' g. json_to_folder 0 archive_json example_world = (Inr new, w') \<and>
           lookup example_world new = None \<and> lookup w' new = Some (ObjFolder g) \<and>
           folder_id g = JString ''AAA'' \<and> folder_name g = JString ''Archive'' \<and>
           parent_id g = JString ''root'' \<and>
           child_folder_count g = JInt 0 \<and> unread_count g = JInt 0 \<and>
           total_items g = JInt 0 \<and> account g = 0"
  using json_to_folder_lossless [of
      "[(''Id'', JString ''AAA''), (''DisplayName'', JString ''Archive''),
        (''ParentFolderId'', JString ''root''), (''ChildFolderCount'', JInt 0),
        (''UnreadItemCount'', JInt 0), (''TotalItemCount'', JInt 0)]"
      "JString ''AAA''" "JString ''Archive''" "JString ''root''" "JInt 0" "JInt 0" "JInt 0"
      0 example_world]
  by (simp add: archive_json_def)

lemma folder_reply_success:
  assumes "res = Inr r" "status_code r \<le> 399 \<or> 452 \<le> status_code r"
  shows "folder_reply acct res w1 =
     (case json_body r of
        None \<Rightarrow> (Inl JSONDecodeError, w1\<lparr>trace := trace w1 @ [EvJson]\<rparr>)
      | Some j \<Rightarrow> json_to_folder acct j (w1\<lparr>trace := trace w1 @ [EvJson]\<rparr>))"
  using assms by (auto simp: folder_reply_def r_json_run split: option.splits)

text \<open>
  C4 (as amended). Whenever the server answers with a status code outside the band, that is
  at most 399 or at least 452 (399, 452 and 500 among them), \<^verbatim>\<open>rename_folder\<close>, \<^verbatim>\<open>move_folder\<close>,
  \<^verbatim>\<open>copy_folder\<close> and \<^verbatim>\<open>create_child_folder\<close> call \<^verbatim>\<open>r.json()\<close> and return what \<^verbatim>\<open>_json_to_folder\<close>
  makes of the value, \<^verbatim>\<open>get_subfolders\<close> does so with \<^verbatim>\<open>_json_to_folders\<close>, and \<^verbatim>\<open>delete_folder\<close>
  returns None without decoding anything. At every status code other than 401 \<^verbatim>\<open>messages\<close> calls
  \<^verbatim>\<open>r.json()\<close> and returns what \<^verbatim>\<open>Message._json_to_messages\<close> makes of the value. A body that
  is not JSON lets the decoding error out.
\<close>

theorem success_outside_band:
  assumes "lookup w self = Some (ObjFolder f)" and "folder_id f = JString i"
    and "lookup w (account f) = Some (ObjAccount a)"
    and "\<forall>rq. net rq = Inr r"
  shows
   "(status_code r \<le> 399 \<or> 452 \<le> status_code r \<longrightarrow>
      (\<exists>rq. rename_folder net self n w =
         (case json_body r of
            None \<Rightarrow> (Inl JSONDecodeError, w\<lparr>trace := trace w @ [EvRequest rq, EvJson]\<rparr>)
          | Some j \<Rightarrow> json_to_folder (account f) j (w\<lparr>trace := trace w @ [EvRequest rq, EvJson]\<rparr>))) \<and>
      (\<exists>rq. move_folder net self d w =
         (case json_body r of
            None \<Rightarrow> (Inl JSONDecodeError, w\<lparr>trace := trace w @ [EvRequest rq, EvJson]\<rparr>)
          | Some j \<Rightarrow> json_to_folder (account f) j (w\<lparr>trace := trace w @ [EvRequest rq, EvJson]\<rparr>))) \<and>
      (\<exists>rq. copy_folder net self d w =
         (case json_body r of
            None \<Rightarrow> (Inl JSONDecodeError, w\<lparr>trace := trace w @ [EvRequest rq, EvJson]\<rparr>)
          | Some j \<Rightarrow> json_to_folder (account f) j (w\<lparr>trace := trace w @ [EvRequest rq, EvJson]\<rparr>))) \<and>
      (\<exists>rq. create_child_folder net self n w =
         (case json_body r of
            None \<Rightarrow> (Inl JSONDecodeError, w\<lparr>trace := trace w @ [EvRequest rq, EvJson]\<rparr>)
          | Some j \<Rightarrow> json_to_folder (account f) j (w\<lparr>trace := trace w @ [EvRequest rq, EvJson]\<rparr>))) \<and>
      (\<exists>rq. get_subfolders net self w =
         (case json_body r of
            None \<Rightarrow> (Inl JSONDecodeError, w\<lparr>trace := trace w @ [EvRequest rq, EvJson]\<rparr>)
          | Some j \<Rightarrow> json_to_folders (account f) j (w\<lparr>trace := trace w @ [EvRequest rq, EvJson]\<rparr>))) \<and>
      (\<exists>rq. delete_folder net self w = (Inr (), w\<lparr>trace := trace w @ [EvRequest rq]\<rparr>))) \<and>
    (status_code r \<noteq> 401 \<longrightarrow>
      (\<exists>rq. messages json_to_messages net self w =
         (case json_body r of
            None \<Rightarrow> (Inl JSONDecodeError, w\<lparr>trace := trace w @ [EvRequest rq, EvJson]\<rparr>)
          | Some j \<Rightarrow> (json_to_messages (account f) j,
                       w\<lparr>trace := trace w @ [EvRequest rq, EvJson]\<rparr>))))"
proof -
  have net: "net rq = Inr r" for rq using assms(4) by simp
  have ex: "\<exists>rq. P rq" if "\<And>rq. P rq" for P :: "http_request \<Rightarrow> bool"
    using that by simp
  show ?thesis
  proof (intro conjI impI)
    assume s: "status_code r \<le> 399 \<or> 452 \<le> status_code r"
    have reply: "folder_reply (account f) (net rq) (w\<lparr>trace := trace w @ [EvRequest rq]\<rparr>) =
        (case json_body r of
           None \<Rightarrow> (Inl JSONDecodeError, w\<lparr>trace := trace w @ [EvRequest rq, EvJson]\<rparr>)
         | Some j \<Rightarrow> json_to_folder (account f) j (w\<lparr>trace := trace w @ [EvRequest rq, EvJson]\<rparr>))"
      for rq
      by (simp add: folder_reply_success [where res = "net rq", OF net s] split: option.splits)
    show "\<exists>rq. rename_folder net self n w =
         (case json_body r of
            None \<Rightarrow> (Inl JSONDecodeError, w\<lparr>trace := trace w @ [EvRequest rq, EvJson]\<rparr>)
          | Some j \<Rightarrow> json_to_folder (account f) j (w\<lparr>trace := trace w @ [EvRequest rq, EvJson]\<rparr>))"
      unfolding rename_folder_run [OF assms(1-3)] Let_def reply by (rule exI, rule refl)
    show "\<exists>rq. move_folder net self d w =
         (case json_body r of
            None \<Rightarrow> (Inl JSONDecodeError, w\<lparr>trace := trace w @ [EvRequest rq, EvJson]\<rparr>)
          | Some j \<Rightarrow> json_to_folder (account f) j (w\<lparr>trace := trace w @ [EvRequest rq, EvJson]\<rparr>))"
      unfolding move_folder_run [OF assms(1-3)] Let_def reply by (rule exI, rule refl)
    show "\<exists>rq. copy_folder net self d w =
         (case json_body r of
            None \<Rightarrow> (Inl JSONDecodeError, w\<lparr>trace := trace w @ [EvRequest rq, EvJson]\<rparr>)
          | Some j \<Rightarrow> json_to_folder (account f) j (w\<lparr>trace := trace w @ [EvRequest rq, EvJson]\<rparr>))"
      unfolding copy_folder_run [OF assms(1-3)] Let_def reply by (rule exI, rule refl)
    show "\<exists>rq. create_child_folder net self n w =
         (case json_body r of
            None \<Rightarrow> (Inl JSONDecodeError, w\<lparr>trace := trace w @ [EvRequest rq, EvJson]\<rparr>)
          | Some j \<Rightarrow> json_to_folder (account f) j (w\<lparr>trace := trace w @ [EvRequest rq, EvJson]\<rparr>))"
      unfolding create_child_folder_run [OF assms(1-3)] Let_def reply by (rule exI, rule refl)
    show "\<exists>rq. get_subfolders net self w =
         (case json_body r of
            None \<Rightarrow> (Inl JSONDecodeError, w\<lparr>trace := trace w @ [EvRequest rq, EvJson]\<rparr>)
          | Some j \<Rightarrow> json_to_folders (account f) j (w\<lparr>trace := trace w @ [EvRequest rq, EvJson]\<rparr>))"
      using s
      by (intro exI [where x = "\<lparr>req_method = GET,
                req_url = ''https://outlook.office.com/api/v2.0/me/MailFolders/'' @ i @ ''/childfolders'',
                req_headers = [(''Authorization'', ''Bearer '' @ access_token a),
                               (''Content-Type'', ''application/json'')],
                req_data = None\<rparr>"])
         (auto simp: get_subfolders_run [OF assms(1-3)] Let_def net r_json_run split: option.splits)
    show "\<exists>rq. delete_folder net self w = (Inr (), w\<lparr>trace := trace w @ [EvRequest rq]\<rparr>)"
      using s
      by (intro exI [where x = "\<lparr>req_method = DELETE,
                req_url = ''https://outlook.office.com/api/v2.0/me/MailFolders/'' @ i,
                req_headers = [(''Authorization'', ''Bearer '' @ access_token a),
                               (''Content-Type'', ''application/json'')],
                req_data = None\<rparr>"])
         (auto simp: delete_folder_run [OF assms(1-3)] Let_def net)
  next
    assume s: "status_code r \<noteq> 401"
    show "\<exists>rq. messages json_to_messages net self w =
         (case json_body r of
            None \<Rightarrow> (Inl JSONDecodeError, w\<lparr>trace := trace w @ [EvRequest rq, EvJson]\<rparr>)
          | Some j \<Rightarrow> (json_to_messages (account f) j,
                       w\<lparr>trace := trace w @ [EvRequest rq, EvJson]\<rparr>))"
      using s
      by (intro exI [where x = "\<lparr>req_method = GET,
                req_url = ''https://outlook.office.com/api/v2.0/me/MailFolders/'' @ i @ ''/messages'',
                req_headers = [(''Authorization'', ''Bearer '' @ access_token a),
                               (''Content-Type'', ''application/json'')],
                req_data = None\<rparr>"])
         (auto simp: messages_run [OF assms(1-3)] Let_def net r_json_run lift_def split: option.splits)
  qed
qed

theorem success_outside_band_witness:
  "(\<exists>rq. rename_folder (answer 399 (Some archive_json)) 1 ''Archive'' example_world =
      (Inr 2, example_world\<lparr>trace := trace example_world @ [EvRequest rq, EvJson],
               heap := heap example_world @
                 [ObjFolder \<lparr>account = 0, parent_id = JString ''root'', child_folder_count = JInt 0,
                    unread_count = JInt 0, total_items = JInt 0,
                    folder_name = JString ''Archive'', folder_id = JString ''AAA''\<rparr>]\<rparr>)) \<and>
   (\<exists>rq. rename_folder (answer 452 (Some archive_json)) 1 ''Archive'' example_world =
      (Inr 2, example_world\<lparr>trace := trace example_world @ [EvRequest rq, EvJson],
               heap := heap example_world @
                 [ObjFolder \<lparr>account = 0, parent_id = JString ''root'', child_folder_count = JInt 0,
                    unread_count = JInt 0, total_items = JInt 0,
                    folder_name = JString ''Archive'', folder_id = JString ''AAA''\<rparr>]\<rparr>)) \<and>
   (\<exists>rq. rename_folder (answer 500 (Some archive_json)) 1 ''Archive'' example_world =
      (Inr 2, example_world\<lparr>trace := trace example_world @ [EvRequest rq, EvJson],
               heap := heap example_world @
                 [ObjFolder \<lparr>account = 0, parent_id = JString ''root'', child_folder_count = JInt 0,
                    unread_count = JInt 0, total_items = JInt 0,
                    folder_name = JString ''Archive'', folder_id = JString ''AAA''\<rparr>]\<rparr>)) \<and>
   (\<exists>rq. get_subfolders (answer 500 None) 1 example_world =
      (Inl JSONDecodeError, example_world\<lparr>trace := trace example_world @ [EvRequest rq, EvJson]\<rparr>)) \<and>
   (\<exists>rq. delete_folder (answer 500 None) 1 example_world =
      (Inr (), example_world\<lparr>trace := trace example_world @ [EvRequest rq]\<rparr>)) \<and>
   (\<exists>rq. messages (\<lambda>acct j. Inr (acct, j)) (answer 500 (Some JNull)) 1 example_world =
      (Inr (0, JNull), example_world\<lparr>trace := trace example_world @ [EvRequest rq, EvJson]\<rparr>))"
proof -
  let ?f = "\<lparr>account = 0, parent_id = JString ''root'', child_folder_count = JInt 0,
             unread_count = JInt 0, total_items = JInt 0,
             folder_name = JString ''Inbox'', folder_id = JString ''AAA''\<rparr>"
  have h2: "folder_id ?f = JString ''AAA''" by simp
  have h3: "lookup example_world (account ?f) = Some (ObjAccount \<lparr>access_token = ''tok''\<rparr>)"
    by (simp add: example_account)
  have h4: "\<forall>rq. answer s b rq = Inr \<lparr>status_code = s, json_body = b\<rparr>" for s b
    by (simp add: answer_def)
  have len: "length (heap example_world) = 2" by (simp add: example_world_def)
  note t = success_outside_band [OF example_self h2 h3 h4, where n = "''Archive''"
      and d = "''BBB''" and json_to_messages = "\<lambda>acct j. Inr (acct, j)"]
  have a: "\<exists>rq. rename_folder (answer s (Some archive_json)) 1 ''Archive'' example_world =
      (Inr 2, example_world\<lparr>trace := trace example_world @ [EvRequest rq, EvJson],
               heap := heap example_world @
                 [ObjFolder \<lparr>account = 0, parent_id = JString ''root'', child_folder_count = JInt 0,
                    unread_count = JInt 0, total_items = JInt 0,
                    folder_name = JString ''Archive'', folder_id = JString ''AAA''\<rparr>]\<rparr>)"
    if "s \<le> 399 \<or> 452 \<le> s" for s
    using that t [of s "Some archive_json"]
    by (simp add: archive_json_def json_to_folder_object len)
  have b: "(\<exists>rq. get_subfolders (answer 500 None) 1 example_world =
      (Inl JSONDecodeError, example_world\<lparr>trace := trace example_world @ [EvRequest rq, EvJson]\<rparr>)) \<and>
   (\<exists>rq. delete_folder (answer 500 None) 1 example_world =
      (Inr (), example_world\<lparr>trace := trace example_world @ [EvRequest rq]\<rparr>))"
    using t [of 500 None] by simp
  have c: "\<exists>rq. messages (\<lambda>acct j. Inr (acct, j)) (answer 500 (Some JNull)) 1 example_world =
      (Inr (0, JNull), example_world\<lparr>trace := trace example_world @ [EvRequest rq, EvJson]\<rparr>)"
    using t [of 500 "Some JNull"] by simp
  from a [of 399] a [of 452] a [of 500] b c show ?thesis by simp
qed

text \<open>
  C4 as first stated has every operation decode the body outside the band. \<^verbatim>\<open>delete_folder\<close>
  does not: answered 204 with a body that is not JSON, it returns None and never calls
  \<^verbatim>\<open>r.json()\<close>.
\<close>

theorem delete_folder_no_decoding:
  "fst (delete_folder (answer 204 None) 1 example_world) = Inr () \<and>
   EvJson \<notin> set (trace (snd (delete_folder (answer 204 None) 1 example_world)))"
proof -
  let ?f = "\<lparr>account = 0, parent_id = JString ''root'', child_folder_count = JInt 0,
             unread_count = JInt 0, total_items = JInt 0,
             folder_name = JString ''Inbox'', folder_id = JString ''AAA''\<rparr>"
  have h2: "folder_id ?f = JString ''AAA''" by simp
  have h3: "lookup example_world (account ?f) = Some (ObjAccount \<lparr>access_token = ''tok''\<rparr>)"
    by (simp add: example_account)
  have "delete_folder (answer 204 None) 1 example_world =
      (Inr (), example_world\<lparr>trace := trace example_world @
         [EvRequest \<lparr>req_method = DELETE,
            req_url = ''https://outlook.office.com/api/v2.0/me/MailFolders/AAA'',
            req_headers = [(''Authorization'', ''Bearer tok''),
                           (''Content-Type'', ''application/json'')],
            req_data = None\<rparr>]\<rparr>)"
    by (subst delete_folder_run [OF example_self h2 h3]) (simp add: Let_def answer_def)
  then show ?thesis
    by (simp add: example_world_def)
qed

section \<open>Decoding a list of folders\<close>

lemma valid_folder_decodes:
  assumes "\<forall>k \<in> set folder_keys. map_of kvs k \<noteq> None"
  shows "\<exists>g. \<forall>w0. json_to_folder acct (JObject kvs) w0 =
           (Inr (length (heap w0)), w0\<lparr>heap := heap w0 @ [ObjFolder g]\<rparr>)"
proof -
  from assms obtain a1 a2 a3 a4 a5 a6 where
    "map_of kvs ''Id'' = Some a1" "map_of kvs ''DisplayName'' = Some a2"
    "map_of kvs ''ParentFolderId'' = Some a3" "map_of kvs ''ChildFolderCount'' = Some a4"
    "map_of kvs ''UnreadItemCount'' = Some a5" "map_of kvs ''TotalItemCount'' = Some a6"
    unfolding folder_keys_def by auto
  from json_to_folder_complete [OF this] show ?thesis by blast
qed

lemma comprehension_folders:
  assumes "\<forall>j \<in> set fs. \<exists>kvs. j = JObject kvs \<and> (\<forall>k \<in> set folder_keys. map_of kvs k \<noteq> None)"
  shows "\<exists>gs. length gs = length fs \<and>
           (\<forall>w. comprehension (json_to_folder acct) fs w =
             (Inr [length (heap w)..<length (heap w) + length fs],
              w\<lparr>heap := heap w @ map ObjFolder gs\<rparr>)) \<and>
           (\<forall>k < length fs. \<forall>w0. json_to_folder acct (fs ! k) w0 =
              (Inr (length (heap w0)), w0\<lparr>heap := heap w0 @ [ObjFolder (gs ! k)]\<rparr>))"
  using assms
proof (induction fs)
  case Nil
  then show ?case by (simp add: ret_def)
next
  case (Cons x xs)
  from Cons.prems obtain kvs where x: "x = JObject kvs"
    and keys: "\<forall>k \<in> set folder_keys. map_of kvs k \<noteq> None"
    by auto
  from valid_folder_decodes [OF keys] obtain g where
    g: "\<And>w0. json_to_folder acct x w0 =
           (Inr (length (heap w0)), w0\<lparr>heap := heap w0 @ [ObjFolder g]\<rparr>)"
    unfolding x by blast
  from Cons.prems have rest:
    "\<forall>j \<in> set xs. \<exists>kvs. j = JObject kvs \<and> (\<forall>k \<in> set folder_keys. map_of kvs k \<noteq> None)"
    by simp
  from Cons.IH [OF rest] obtain gs where
    len: "length gs = length xs"
    and run: "\<And>w. comprehension (json_to_folder acct) xs w =
             (Inr [length (heap w)..<length (heap w) + length xs],
              w\<lparr>heap := heap w @ map ObjFolder gs\<rparr>)"
    and each: "\<forall>k < length xs. \<forall>w0. json_to_folder acct (xs ! k) w0 =
              (Inr (length (heap w0)), w0\<lparr>heap := heap w0 @ [ObjFolder (gs ! k)]\<rparr>)"
    by blast
  have "comprehension (json_to_folder acct) (x # xs) w =
        (Inr [length (heap w)..<length (heap w) + length (x # xs)],
         w\<lparr>heap := heap w @ map ObjFolder (g # gs)\<rparr>)" for w
    by (simp add: bnd_def g run ret_def upt_conv_Cons del: upt_Suc)
  moreover have "\<forall>k < length (x # xs). \<forall>w0. json_to_folder acct ((x # xs) ! k) w0 =
              (Inr (length (heap w0)), w0\<lparr>heap := heap w0 @ [ObjFolder ((g # gs) ! k)]\<rparr>)"
    using each g by (auto simp: nth_Cons split: nat.splits)
  ultimately show ?case
    using len by (intro exI [where x = "g # gs"]) simp
qed

lemma json_to_folders_value:
  assumes "map_of kvs ''value'' = Some (JArray fs)"
  shows "json_to_folders acct (JObject kvs) w = comprehension (json_to_folder acct) fs w"
  using assms by (simp add: json_to_folders_def)

text \<open>
  C5. When \<^verbatim>\<open>get_subfolders\<close> is answered, outside the error band, with a JSON object whose
  \<open>value\<close> is an array of \<open>n\<close> folder objects with the six keys each, it returns exactly \<open>n\<close>
  references, the \<open>n\<close> next free ones in increasing order, and the store holds under them, in
  the order of the array, the Folders that \<^verbatim>\<open>_json_to_folder\<close> makes of the elements one by
  one. \<^verbatim>\<open>_json_to_folders\<close> alone does the same on the decoded object.
\<close>

theorem folder_list_in_order:
  assumes "lookup w self = Some (ObjFolder f)" and "folder_id f = JString i"
    and "lookup w (account f) = Some (ObjAccount a)"
    and "net \<lparr>req_method = GET,
              req_url = ''https://outlook.office.com/api/v2.0/me/MailFolders/'' @ i @ ''/childfolders'',
              req_headers = [(''Authorization'', ''Bearer '' @ access_token a),
                             (''Content-Type'', ''application/json'')],
              req_data = None\<rparr> = Inr r"
    and "status_code r \<le> 399 \<or> 452 \<le> status_code r"
    and "json_body r = Some (JObject kvs)"
    and "map_of kvs ''value'' = Some (JArray fs)"
    and "\<forall>j \<in> set fs. \<exists>ob. j = JObject ob \<and> (\<forall>k \<in> set folder_keys. map_of ob k \<noteq> None)"
  shows "\<exists>gs. length gs = length fs \<and>
     json_to_folders (account f) (JObject kvs) w =
       (Inr [length (heap w)..<length (heap w) + length fs],
        w\<lparr>heap := heap w @ map ObjFolder gs\<rparr>) \<and>
     (\<exists>rq. get_subfolders net self w =
       (Inr [length (heap w)..<length (heap w) + length fs],
        w\<lparr>trace := trace w @ [EvRequest rq, EvJson], heap := heap w @ map ObjFolder gs\<rparr>)) \<and>
     (\<forall>k < length fs. \<forall>w0. json_to_folder (account f) (fs ! k) w0 =
        (Inr (length (heap w0)), w0\<lparr>heap := heap w0 @ [ObjFolder (gs ! k)]\<rparr>))"
proof -
  let ?rq = "\<lparr>req_method = GET,
              req_url = ''https://outlook.office.com/api/v2.0/me/MailFolders/'' @ i @ ''/childfolders'',
              req_headers = [(''Authorization'', ''Bearer '' @ access_token a),
                             (''Content-Type'', ''application/json'')],
              req_data = None\<rparr>"
  let ?w2 = "w\<lparr>trace := trace w @ [EvRequest ?rq, EvJson]\<rparr>"
  have run: "get_subfolders net self w = comprehension (json_to_folder (account f)) fs ?w2"
    using assms(4-7)
    by (auto simp: get_subfolders_run [OF assms(1-3)] Let_def r_json_run json_to_folders_value)
  from comprehension_folders [OF assms(8), of "account f"] obtain gs where
    len: "length gs = length fs"
    and one: "\<And>w. comprehension (json_to_folder (account f)) fs w =
             (Inr [length (heap w)..<length (heap w) + length fs],
              w\<lparr>heap := heap w @ map ObjFolder gs\<rparr>)"
    and each: "\<forall>k < length fs. \<forall>w0. json_to_folder (account f) (fs ! k) w0 =
              (Inr (length (heap w0)), w0\<lparr>heap := heap w0 @ [ObjFolder (gs ! k)]\<rparr>)"
    by blast
  have a: "json_to_folders (account f) (JObject kvs) w =
       (Inr [length (heap w)..<length (heap w) + length fs],
        w\<lparr>heap := heap w @ map ObjFolder gs\<rparr>)"
    by (simp add: json_to_folders_value [OF assms(7)] one)
  have b: "\<exists>rq. get_subfolders net self w =
       (Inr [length (heap w)..<length (heap w) + length fs],
        w\<lparr>trace := trace w @ [EvRequest rq, EvJson], heap := heap w @ map ObjFolder gs\<rparr>)"
    by (rule exI [where x = ?rq]) (simp add: run one)
  from len a b each show ?thesis by blast
qed

theorem folder_list_in_order_witness:
  "\<exists>rq. get_subfolders
      (answer 200 (Some (JObject [(''value'', JArray [archive_json,
         JObject [(''Id'', JString ''BBB''), (''DisplayName'', JString ''Sent''),
                  (''ParentFolderId'', JString ''AAA''), (''ChildFolderCount'', JInt 0),
                  (''UnreadItemCount'', JInt 3), (''TotalItemCount'', JInt 7)]])])))
      1 example_world =
    (Inr [2, 3],
     example_world\<lparr>trace := trace example_world @ [EvRequest rq, EvJson],
       heap := heap example_world @
         [ObjFolder \<lparr>account = 0, parent_id = JString ''root'', child_folder_count = JInt 0,
            unread_count = JInt 0, total_items = JInt 0,
            folder_name = JString ''Archive'', folder_id = JString ''AAA''\<rparr>,
          ObjFolder \<lparr>account = 0, parent_id = JString ''AAA'', child_folder_count = JInt 0,
            unread_count = JInt 3, total_items = JInt 7,
            folder_name = JString ''Sent'', folder_id = JString ''BBB''\<rparr>]\<rparr>)"
proof -
  let ?f = "\<lparr>account = 0, parent_id = JString ''root'', child_folder_count = JInt 0,
             unread_count = JInt 0, total_items = JInt 0,
             folder_name = JString ''Inbox'', folder_id = JString ''AAA''\<rparr>"
  let ?B = "JObject [(''Id'', JString ''BBB''), (''DisplayName'', JString ''Sent''),
                  (''ParentFolderId'', JString ''AAA''), (''ChildFolderCount'', JInt 0),
                  (''UnreadItemCount'', JInt 3), (''TotalItemCount'', JInt 7)]"
  let ?kvs = "[(''value'', JArray [archive_json, ?B])]"
  let ?r = "\<lparr>status_code = 200, json_body = Some (JObject ?kvs)\<rparr>"
  have h2: "folder_id ?f = JString ''AAA''" by simp
  have h3: "lookup example_world (account ?f) = Some (ObjAccount \<lparr>access_token = ''tok''\<rparr>)"
    by (simp add: example_account)
  have h4: "answer 200 (Some (JObject ?kvs)) rq = Inr ?r" for rq
    by (simp add: answer_def)
  have h5: "status_code ?r \<le> 399 \<or> 452 \<le> status_code ?r" by simp
  have h6: "json_body ?r = Some (JObject ?kvs)" by simp
  have h7: "map_of ?kvs ''value'' = Some (JArray [archive_json, ?B])" by simp
  have h8: "\<forall>j \<in> set [archive_json, ?B].
      \<exists>ob. j = JObject ob \<and> (\<forall>k \<in> set folder_keys. map_of ob k \<noteq> None)"
    by (simp add: archive_json_def folder_keys_def)
  let ?fs = "[archive_json, ?B]"
  from folder_list_in_order [where net = "answer 200 (Some (JObject ?kvs))",
      OF example_self h2 h3 h4 h5 h6 h7 h8]
  obtain gs where len0: "length gs = length ?fs"
    and run0: "\<exists>rq. get_subfolders (answer 200 (Some (JObject ?kvs))) 1 example_world =
       (Inr [length (heap example_world)..<length (heap example_world) + length ?fs],
        example_world\<lparr>trace := trace example_world @ [EvRequest rq, EvJson],
          heap := heap example_world @ map ObjFolder gs\<rparr>)"
    and each0: "\<forall>k < length ?fs. \<forall>w0. json_to_folder (account ?f) (?fs ! k) w0 =
        (Inr (length (heap w0)), w0\<lparr>heap := heap w0 @ [ObjFolder (gs ! k)]\<rparr>)"
    by blast
  from run0 obtain rq where
    run: "get_subfolders (answer 200 (Some (JObject ?kvs))) 1 example_world =
       (Inr [length (heap example_world)..<length (heap example_world) + length ?fs],
        example_world\<lparr>trace := trace example_world @ [EvRequest rq, EvJson],
          heap := heap example_world @ map ObjFolder gs\<rparr>)"
    by blast
  from len0 have len: "length gs = 2" by simp
  have each: "json_to_folder 0 (?fs ! k) w0 =
        (Inr (length (heap w0)), w0\<lparr>heap := heap w0 @ [ObjFolder (gs ! k)]\<rparr>)"
    if "k < 2" for k w0
    using each0 that by simp
  from each [of 0 example_world] have "json_to_folder 0 archive_json example_world =
        (Inr (length (heap example_world)),
         example_world\<lparr>heap := heap example_world @ [ObjFolder (gs ! 0)]\<rparr>)"
    by simp
  then have "heap (snd (json_to_folder 0 archive_json example_world)) =
      heap example_world @ [ObjFolder (gs ! 0)]"
    by simp
  then have g0: "gs ! 0 = \<lparr>account = 0, parent_id = JString ''root'', child_folder_count = JInt 0,
            unread_count = JInt 0, total_items = JInt 0,
            folder_name = JString ''Archive'', folder_id = JString ''AAA''\<rparr>"
    by (simp add: archive_json_def json_to_folder_object)
  from each [of 1 example_world] have "json_to_folder 0 ?B example_world =
        (Inr (length (heap example_world)),
         example_world\<lparr>heap := heap example_world @ [ObjFolder (gs ! 1)]\<rparr>)"
    by simp
  then have "heap (snd (json_to_folder 0 ?B example_world)) =
      heap example_world @ [ObjFolder (gs ! 1)]"
    by simp
  then have g1: "gs ! 1 = \<lparr>account = 0, parent_id = JString ''AAA'', child_folder_count = JInt 0,
            unread_count = JInt 3, total_items = JInt 7,
            folder_name = JString ''Sent'', folder_id = JString ''BBB''\<rparr>"
    by (simp add: json_to_folder_object)
  from len have "gs = [gs ! 0, gs ! 1]"
    by (cases gs; cases "tl gs") auto
  with g0 g1 have gs: "gs = [\<lparr>account = 0, parent_id = JString ''root'', child_folder_count = JInt 0,
            unread_count = JInt 0, total_items = JInt 0,
            folder_name = JString ''Archive'', folder_id = JString ''AAA''\<rparr>,
          \<lparr>account = 0, parent_id = JString ''AAA'', child_folder_count = JInt 0,
            unread_count = JInt 3, total_items = JInt 7,
            folder_name = JString ''Sent'', folder_id = JString ''BBB''\<rparr>]"
    by simp
  have idx: "[length (heap example_world)..<length (heap example_world) + length ?fs] = [2, 3]"
    by (simp add: example_world_def upt_rec)
  show ?thesis
    by (rule exI [where x = rq]) (simp only: run gs idx list.map)
qed

section \<open>What an operation leaves in the store\<close>

lemma lookup_alloc_old:
  "lookup w x = Some ob \<Longrightarrow> lookup (w\<lparr>heap := heap w @ [nw]\<rparr>) x = Some ob"
  by (auto simp: lookup_def nth_append split: if_splits)

lemma lookup_alloc_new:
  "lookup (w\<lparr>heap := heap w @ [nw]\<rparr>) (length (heap w)) = Some nw"
  by (simp add: lookup_def)

lemma lookup_fresh: "lookup w (length (heap w)) = None"
  by (simp add: lookup_def)

lemma json_to_folder_frame:
  assumes "json_to_folder acct j w = (out, w')"
  shows "(\<forall>x ob. lookup w x = Some ob \<longrightarrow> lookup w' x = Some ob) \<and>
         (\<forall>new. out = Inr new \<longrightarrow>
            lookup w new = None \<and>
            (\<exists>g. lookup w' new = Some (ObjFolder g) \<and> built_from g acct j))"
  using json_to_folder_cases [of acct j w] assms
  by (auto simp: built_from_def lookup_alloc_old lookup_alloc_new lookup_fresh)

lemma folder_reply_frame:
  assumes "folder_reply acct res w1 = (out, w')"
  shows "(\<forall>x ob. lookup w1 x = Some ob \<longrightarrow> lookup w' x = Some ob) \<and>
         (\<forall>new. out = Inr new \<longrightarrow>
            lookup w1 new = None \<and>
            (\<exists>r j g. res = Inr r \<and> json_body r = Some j \<and>
               lookup w' new = Some (ObjFolder g) \<and> built_from g acct j))"
proof (cases res)
  case (Inl e)
  with assms show ?thesis by (auto simp: folder_reply_def raise_def)
next
  case (Inr r)
  show ?thesis
  proof (cases "399 < status_code r \<and> status_code r < 452")
    case True
    with Inr assms show ?thesis by (auto simp: folder_reply_def raise_def)
  next
    case False
    show ?thesis
    proof (cases "json_body r")
      case None
      with Inr False assms show ?thesis
        by (auto simp: folder_reply_def r_json_run)
    next
      case (Some j)
      with Inr False assms
      have "json_to_folder acct j (w1\<lparr>trace := trace w1 @ [EvJson]\<rparr>) = (out, w')"
        by (auto simp: folder_reply_def r_json_run)
      from json_to_folder_frame [OF this] Inr Some show ?thesis
        by simp
    qed
  qed
qed

lemma folder_reply_returns:
  assumes "res = Inr r" "status_code r \<le> 399 \<or> 452 \<le> status_code r"
    "json_body r = Some (JObject kvs)" "\<forall>k \<in> set folder_keys. map_of kvs k \<noteq> None"
  shows "\<exists>new w'. folder_reply acct res w1 = (Inr new, w')"
proof -
  from valid_folder_decodes [OF assms(4)] obtain g where
    "\<And>w0. json_to_folder acct (JObject kvs) w0 =
           (Inr (length (heap w0)), w0\<lparr>heap := heap w0 @ [ObjFolder g]\<rparr>)"
    by blast
  then show ?thesis
    by (simp add: folder_reply_success [OF assms(1,2)] assms(3))
qed

lemma reply_frame:
  assumes "lookup w self = Some (ObjFolder f)"
    and "lookup w (account f) = Some (ObjAccount a)"
    and "folder_reply (account f) (net rq) (w\<lparr>trace := trace w @ [EvRequest rq]\<rparr>) = (out, w')"
  shows "lookup w' self = Some (ObjFolder f) \<and>
     lookup w' (account f) = Some (ObjAccount a) \<and>
     (\<forall>new. out = Inr new \<longrightarrow>
        new \<noteq> self \<and> lookup w new = None \<and>
        (\<exists>rq r j g. net rq = Inr r \<and> json_body r = Some j \<and>
           lookup w' new = Some (ObjFolder g) \<and> built_from g (account f) j)) \<and>
     ((\<forall>rq. \<exists>r kvs. net rq = Inr r \<and> (status_code r \<le> 399 \<or> 452 \<le> status_code r) \<and>
          json_body r = Some (JObject kvs) \<and> (\<forall>k \<in> set folder_keys. map_of kvs k \<noteq> None))
       \<longrightarrow> (\<exists>new. out = Inr new))"
proof -
  note fr = folder_reply_frame [OF assms(3)]
  have old: "lookup w' x = Some ob" if "lookup w x = Some ob" for x ob
    using fr that by simp
  have new: "new \<noteq> self \<and> lookup w new = None \<and>
        (\<exists>rq r j g. net rq = Inr r \<and> json_body r = Some j \<and>
           lookup w' new = Some (ObjFolder g) \<and> built_from g (account f) j)"
    if "out = Inr new" for new
  proof -
    from fr that have n: "lookup w new = None"
      and ex: "\<exists>r j g. net rq = Inr r \<and> json_body r = Some j \<and>
               lookup w' new = Some (ObjFolder g) \<and> built_from g (account f) j"
      by simp_all
    from n assms(1) have "new \<noteq> self" by auto
    with n ex show ?thesis by blast
  qed
  have ret: "\<exists>new. out = Inr new"
    if "\<forall>rq. \<exists>r kvs. net rq = Inr r \<and> (status_code r \<le> 399 \<or> 452 \<le> status_code r) \<and>
          json_body r = Some (JObject kvs) \<and> (\<forall>k \<in> set folder_keys. map_of kvs k \<noteq> None)"
  proof -
    from that obtain r kvs where "net rq = Inr r" "status_code r \<le> 399 \<or> 452 \<le> status_code r"
      "json_body r = Some (JObject kvs)" "\<forall>k \<in> set folder_keys. map_of kvs k \<noteq> None"
      by blast
    from folder_reply_returns [OF this, of "account f" "w\<lparr>trace := trace w @ [EvRequest rq]\<rparr>"]
      assms(3) show ?thesis by auto
  qed
  from old [OF assms(1)] old [OF assms(2)] new ret show ?thesis by blast
qed

text \<open>
  C6. Each of \<^verbatim>\<open>rename_folder\<close>, \<^verbatim>\<open>move_folder\<close>, \<^verbatim>\<open>copy_folder\<close> and \<^verbatim>\<open>create_child_folder\<close>,
  whatever the server does, leaves the Folder it was called on as it was, attribute for
  attribute, and its account too. What it returns is a reference that was free before, so
  not the Folder it was called on, to a new Folder built from the JSON of the server's
  response and holding the same account. It does return one whenever the server answers
  outside the error band with a JSON object that has the six keys.
\<close>

theorem mutating_operations_frame:
  assumes "lookup w self = Some (ObjFolder f)" and "folder_id f = JString i"
    and "lookup w (account f) = Some (ObjAccount a)"
    and "run \<in> {rename_folder net self n, move_folder net self d,
                 copy_folder net self d, create_child_folder net self n}"
    and "run w = (out, w')"
  shows "lookup w' self = Some (ObjFolder f) \<and>
     lookup w' (account f) = Some (ObjAccount a) \<and>
     (\<forall>new. out = Inr new \<longrightarrow>
        new \<noteq> self \<and> lookup w new = None \<and>
        (\<exists>rq r j g. net rq = Inr r \<and> json_body r = Some j \<and>
           lookup w' new = Some (ObjFolder g) \<and> built_from g (account f) j)) \<and>
     ((\<forall>rq. \<exists>r kvs. net rq = Inr r \<and> (status_code r \<le> 399 \<or> 452 \<le> status_code r) \<and>
          json_body r = Some (JObject kvs) \<and> (\<forall>k \<in> set folder_keys. map_of kvs k \<noteq> None))
       \<longrightarrow> (\<exists>new. out = Inr new))"
proof -
  from assms(4) consider "run = rename_folder net self n" | "run = move_folder net self d"
    | "run = copy_folder net self d" | "run = create_child_folder net self n"
    by blast
  then have "\<exists>rq. folder_reply (account f) (net rq) (w\<lparr>trace := trace w @ [EvRequest rq]\<rparr>)
      = (out, w')"
  proof cases
    case 1
    with assms(5) have "rename_folder net self n w = (out, w')" by simp
    then show ?thesis
      unfolding rename_folder_run [OF assms(1-3)] Let_def by (rule exI)
  next
    case 2
    with assms(5) have "move_folder net self d w = (out, w')" by simp
    then show ?thesis
      unfolding move_folder_run [OF assms(1-3)] Let_def by (rule exI)
  next
    case 3
    with assms(5) have "copy_folder net self d w = (out, w')" by simp
    then show ?thesis
      unfolding copy_folder_run [OF assms(1-3)] Let_def by (rule exI)
  next
    case 4
    with assms(5) have "create_child_folder net self n w = (out, w')" by simp
    then show ?thesis
      unfolding create_child_folder_run [OF assms(1-3)] Let_def by (rule exI)
  qed
  then obtain rq where
    "folder_reply (account f) (net rq) (w\<lparr>trace := trace w @ [EvRequest rq]\<rparr>) = (out, w')"
    by blast
  from reply_frame [where net = net and rq = rq, OF assms(1) assms(3) this] show ?thesis .
qed

theorem mutating_operations_frame_witness:
  "\<exists>w'. rename_folder (answer 200 (Some archive_json)) 1 ''Archive'' example_world = (Inr 2, w') \<and>
     lookup w' 1 =
       Some (ObjFolder \<lparr>account = 0, parent_id = JString ''root'', child_folder_count = JInt 0,
                        unread_count = JInt 0, total_items = JInt 0,
                        folder_name = JString ''Inbox'', folder_id = JString ''AAA''\<rparr>) \<and>
     lookup w' 0 = Some (ObjAccount \<lparr>access_token = ''tok''\<rparr>) \<and>
     (2::nat) \<noteq> 1 \<and> lookup example_world 2 = None \<and>
     (\<exists>g. lookup w' 2 = Some (ObjFolder g) \<and> built_from g 0 archive_json)"
proof -
  let ?f = "\<lparr>account = 0, parent_id = JString ''root'', child_folder_count = JInt 0,
             unread_count = JInt 0, total_items = JInt 0,
             folder_name = JString ''Inbox'', folder_id = JString ''AAA''\<rparr>"
  let ?net = "answer 200 (Some archive_json)"
  let ?rq = \<open>\<lparr>req_method = PATCH,
              req_url = ''https://outlook.office.com/api/v2.0/me/MailFolders/'' @ ''AAA'',
              req_headers = [(''Authorization'', ''Bearer '' @ access_token \<lparr>access_token = ''tok''\<rparr>),
                             (''Content-Type'', ''application/json'')],
              req_data = Some (''{ "DisplayName": "'' @ ''Archive'' @ ''"}'')\<rparr>\<close>
  let ?w' = "example_world\<lparr>trace := trace example_world @ [EvRequest ?rq, EvJson],
               heap := heap example_world @
                 [ObjFolder \<lparr>account = 0, parent_id = JString ''root'', child_folder_count = JInt 0,
                    unread_count = JInt 0, total_items = JInt 0,
                    folder_name = JString ''Archive'', folder_id = JString ''AAA''\<rparr>]\<rparr>"
  have h2: "folder_id ?f = JString ''AAA''" by simp
  have h3: "lookup example_world (account ?f) = Some (ObjAccount \<lparr>access_token = ''tok''\<rparr>)"
    by (simp add: example_account)
  have len: "length (heap example_world) = 2" by (simp add: example_world_def)
  have run: "rename_folder ?net 1 ''Archive'' example_world = (Inr 2, ?w')"
    by (subst rename_folder_run [OF example_self h2 h3])
       (simp add: Let_def answer_def folder_reply_def r_json_run archive_json_def
          json_to_folder_object len)
  have mem: "rename_folder ?net 1 ''Archive'' \<in>
      {rename_folder ?net 1 ''Archive'', move_folder ?net 1 ''BBB'',
       copy_folder ?net 1 ''BBB'', create_child_folder ?net 1 ''Archive''}"
    by simp
  from mutating_operations_frame [OF example_self h2 h3 mem run]
  have "lookup ?w' 1 = Some (ObjFolder ?f) \<and>
     lookup ?w' 0 = Some (ObjAccount \<lparr>access_token = ''tok''\<rparr>) \<and>
     (2::nat) \<noteq> 1 \<and> lookup example_world 2 = None \<and>
     (\<exists>g. lookup ?w' 2 = Some (ObjFolder g) \<and> built_from g 0 archive_json)"
    by (auto simp: answer_def)
  with run show ?thesis by blast
qed

section \<open>The request an operation sends\<close>

lemma json_to_folder_trace: "trace (snd (json_to_folder acct j w)) = trace w"
  using json_to_folder_cases [of acct j w] by auto

lemma comprehension_trace:
  assumes "\<And>x w. trace (snd (f x w)) = trace w"
  shows "trace (snd (comprehension f xs w)) = trace w"
proof (induction xs arbitrary: w)
  case Nil
  show ?case by (simp add: ret_def)
next
  case (Cons x xs)
  show ?case
  proof (cases "f x w")
    case (Pair out w1)
    with assms [of x w] have t1: "trace w1 = trace w" by simp
    show ?thesis
    proof (cases out)
      case (Inl e)
      with Pair t1 show ?thesis by (simp add: bnd_def)
    next
      case (Inr y)
      obtain out2 w2 where c: "comprehension f xs w1 = (out2, w2)" by (cases "comprehension f xs w1")
      with Cons.IH [of w1] t1 have "trace w2 = trace w" by simp
      with Pair Inr c show ?thesis
        by (cases out2) (simp_all add: bnd_def ret_def)
    qed
  qed
qed

lemma json_to_folders_trace: "trace (snd (json_to_folders acct j w)) = trace w"
proof (cases "getitem j ''value''")
  case (Inl e)
  then show ?thesis by (simp add: json_to_folders_def raise_def)
next
  case (Inr v)
  show ?thesis
  proof (cases "py_iter v")
    case (Inl e)
    with Inr show ?thesis by (simp add: json_to_folders_def raise_def)
  next
    case (Inr items)
    with \<open>getitem j ''value'' = Inr v\<close> show ?thesis
      by (simp add: json_to_folders_def comprehension_trace json_to_folder_trace)
  qed
qed

lemma issued_one:
  assumes "trace w' = trace w @ [EvRequest rq] \<or> trace w' = trace w @ [EvRequest rq, EvJson]"
  shows "issued w w' = [rq]"
  using assms by (auto simp: issued_def)

lemma folder_reply_trace:
  "trace (snd (folder_reply acct res w1)) = trace w1 \<or>
   trace (snd (folder_reply acct res w1)) = trace w1 @ [EvJson]"
proof (cases res)
  case (Inl e)
  then show ?thesis by (simp add: folder_reply_def raise_def)
next
  case (Inr r)
  show ?thesis
  proof (cases "json_body r")
    case None
    with Inr show ?thesis by (simp add: folder_reply_def raise_def r_json_run)
  next
    case (Some j)
    with Inr show ?thesis
      by (simp add: folder_reply_def raise_def r_json_run json_to_folder_trace)
  qed
qed

lemma folder_reply_issued:
  "issued w (snd (folder_reply acct res (w\<lparr>trace := trace w @ [EvRequest rq]\<rparr>))) = [rq]"
  using folder_reply_trace [of acct res "w\<lparr>trace := trace w @ [EvRequest rq]\<rparr>"]
  by (intro issued_one) auto

lemma rename_folder_issued:
  assumes "lookup w self = Some (ObjFolder f)" "folder_id f = JString i"
    "lookup w (account f) = Some (ObjAccount a)"
  shows \<open>issued w (snd (rename_folder net self n w)) =
    [\<lparr>req_method = PATCH,
      req_url = ''https://outlook.office.com/api/v2.0/me/MailFolders/'' @ i,
      req_headers = [(''Authorization'', ''Bearer '' @ access_token a),
                     (''Content-Type'', ''application/json'')],
      req_data = Some (''{ "DisplayName": "'' @ n @ ''"}'')\<rparr>]\<close>
  unfolding rename_folder_run [OF assms] Let_def by (rule folder_reply_issued)

lemma move_folder_issued:
  assumes "lookup w self = Some (ObjFolder f)" "folder_id f = JString i"
    "lookup w (account f) = Some (ObjAccount a)"
  shows \<open>issued w (snd (move_folder net self d w)) =
    [\<lparr>req_method = POST,
      req_url = ''https://outlook.office.com/api/v2.0/me/MailFolders/'' @ i @ ''/move'',
      req_headers = [(''Authorization'', ''Bearer '' @ access_token a),
                     (''Content-Type'', ''application/json'')],
      req_data = Some (''{ "DestinationId": "'' @ d @ ''"}'')\<rparr>]\<close>
  unfolding move_folder_run [OF assms] Let_def by (rule folder_reply_issued)

lemma copy_folder_issued:
  assumes "lookup w self = Some (ObjFolder f)" "folder_id f = JString i"
    "lookup w (account f) = Some (ObjAccount a)"
  shows \<open>issued w (snd (copy_folder net self d w)) =
    [\<lparr>req_method = POST,
      req_url = ''https://outlook.office.com/api/v2.0/me/MailFolders/'' @ i @ ''/copy'',
      req_headers = [(''Authorization'', ''Bearer '' @ access_token a),
                     (''Content-Type'', ''application/json'')],
      req_data = Some (''{ "DestinationId": "'' @ d @ ''"}'')\<rparr>]\<close>
  unfolding copy_folder_run [OF assms] Let_def by (rule folder_reply_issued)

lemma create_child_folder_issued:
  assumes "lookup w self = Some (ObjFolder f)" "folder_id f = JString i"
    "lookup w (account f) = Some (ObjAccount a)"
  shows \<open>issued w (snd (create_child_folder net self n w)) =
    [\<lparr>req_method = POST,
      req_url = ''https://outlook.office.com/api/v2.0/me/MailFolders/'' @ i @ ''/childfolders'',
      req_headers = [(''Authorization'', ''Bearer '' @ access_token a),
                     (''Content-Type'', ''application/json'')],
      req_data = Some (''{ "DisplayName": "'' @ n @ ''"}'')\<rparr>]\<close>
  unfolding create_child_folder_run [OF assms] Let_def by (rule folder_reply_issued)

lemma get_subfolders_issued:
  assumes "lookup w self = Some (ObjFolder f)" "folder_id f = JString i"
    "lookup w (account f) = Some (ObjAccount a)"
  shows "issued w (snd (get_subfolders net self w)) =
    [\<lparr>req_method = GET,
      req_url = ''https://outlook.office.com/api/v2.0/me/MailFolders/'' @ i @ ''/childfolders'',
      req_headers = [(''Authorization'', ''Bearer '' @ access_token a),
                     (''Content-Type'', ''application/json'')],
      req_data = None\<rparr>]"
  unfolding get_subfolders_run [OF assms] Let_def
  by (rule issued_one)
     (auto simp: r_json_run json_to_folders_trace split: sum.splits option.splits)

lemma delete_folder_issued:
  assumes "lookup w self = Some (ObjFolder f)" "folder_id f = JString i"
    "lookup w (account f) = Some (ObjAccount a)"
  shows "issued w (snd (delete_folder net self w)) =
    [\<lparr>req_method = DELETE,
      req_url = ''https://outlook.office.com/api/v2.0/me/MailFolders/'' @ i,
      req_headers = [(''Authorization'', ''Bearer '' @ access_token a),
                     (''Content-Type'', ''application/json'')],
      req_data = None\<rparr>]"
  unfolding delete_folder_run [OF assms] Let_def
  by (rule issued_one) (auto split: sum.splits)

lemma messages_issued:
  assumes "lookup w self = Some (ObjFolder f)" "folder_id f = JString i"
    "lookup w (account f) = Some (ObjAccount a)"
  shows "issued w (snd (messages jtm net self w)) =
    [\<lparr>req_method = GET,
      req_url = ''https://outlook.office.com/api/v2.0/me/MailFolders/'' @ i @ ''/messages'',
      req_headers = [(''Authorization'', ''Bearer '' @ access_token a),
                     (''Content-Type'', ''application/json'')],
      req_data = None\<rparr>]"
  unfolding messages_run [OF assms] Let_def
  by (rule issued_one)
     (auto simp: r_json_run lift_def split: sum.splits option.splits)

section \<open>Request bodies and JSON\<close>

lemma plain_string_steps:
  assumes "\<forall>c \<in> set s. c \<noteq> CHR 0x22 \<and> c \<noteq> CHR 0x5C \<and> \<not> is_control c"
  shows "foldl jstep (MString k, st) s = (MString k, st)"
  using assms by (induction s) simp_all

lemma display_name_valid_when_plain:
  assumes "\<forall>c \<in> set n. c \<noteq> CHR 0x22 \<and> c \<noteq> CHR 0x5C \<and> \<not> is_control c"
  shows \<open>json_valid (''{ "DisplayName": "'' @ n @ ''"}'')\<close>
  by (simp add: json_valid_def accepting_def start_value_def after_value_def is_ws_def
      is_control_def is_digit_def plain_string_steps [OF assms])

lemma destination_id_valid_when_plain:
  assumes "\<forall>c \<in> set d. c \<noteq> CHR 0x22 \<and> c \<noteq> CHR 0x5C \<and> \<not> is_control c"
  shows \<open>json_valid (''{ "DestinationId": "'' @ d @ ''"}'')\<close>
  by (simp add: json_valid_def accepting_def start_value_def after_value_def is_ws_def
      is_control_def is_digit_def plain_string_steps [OF assms])

lemma display_name_quote_invalid: \<open>\<not> json_valid (''{ "DisplayName": "'' @ ''a"b'' @ ''"}'')\<close>
  by (simp add: json_valid_def accepting_def start_value_def after_value_def is_ws_def
      is_control_def is_digit_def)

lemma destination_id_quote_invalid: \<open>\<not> json_valid (''{ "DestinationId": "'' @ ''a"b'' @ ''"}'')\<close>
  by (simp add: json_valid_def accepting_def start_value_def after_value_def is_ws_def
      is_control_def is_digit_def)

lemma quote_in_name: \<open>CHR 0x22 \<in> set ''a"b''\<close>
  by simp

section \<open>Bodies, headers, methods and URLs\<close>

lemma example_self_id:
  "folder_id \<lparr>account = 0, parent_id = JString ''root'', child_folder_count = JInt 0,
              unread_count = JInt 0, total_items = JInt 0,
              folder_name = JString ''Inbox'', folder_id = JString ''AAA''\<rparr> = JString ''AAA''"
  by simp

lemma example_self_account:
  "lookup example_world
     (account \<lparr>account = 0, parent_id = JString ''root'', child_folder_count = JInt 0,
               unread_count = JInt 0, total_items = JInt 0,
               folder_name = JString ''Inbox'', folder_id = JString ''AAA''\<rparr>)
   = Some (ObjAccount \<lparr>access_token = ''tok''\<rparr>)"
  by (simp add: example_account)

text \<open>
  C7. The body each operation sends is the caller's string put between two fixed pieces, with
  nothing escaped: \<^verbatim>\<open>{ "DisplayName": "\<close> \<open>name\<close> \<^verbatim>\<open>"}\<close> for \<^verbatim>\<open>rename_folder\<close> and
  \<^verbatim>\<open>create_child_folder\<close>, \<^verbatim>\<open>{ "DestinationId": "\<close> \<open>dest\<close> \<^verbatim>\<open>"}\<close> for \<^verbatim>\<open>move_folder\<close> and
  \<^verbatim>\<open>copy_folder\<close>. So for each of the four there is an argument with a quote character in it
  for which the body sent is not a JSON text.
\<close>

theorem request_bodies_unescaped:
  assumes "lookup w self = Some (ObjFolder f)" and "folder_id f = JString i"
    and "lookup w (account f) = Some (ObjAccount a)"
  shows \<open>map req_data (issued w (snd (rename_folder net self name w))) =
            [Some (''{ "DisplayName": "'' @ name @ ''"}'')] \<and>
         map req_data (issued w (snd (create_child_folder net self name w))) =
            [Some (''{ "DisplayName": "'' @ name @ ''"}'')] \<and>
         map req_data (issued w (snd (move_folder net self dest w))) =
            [Some (''{ "DestinationId": "'' @ dest @ ''"}'')] \<and>
         map req_data (issued w (snd (copy_folder net self dest w))) =
            [Some (''{ "DestinationId": "'' @ dest @ ''"}'')] \<and>
         (\<exists>bad body. CHR 0x22 \<in> set bad \<and> \<not> json_valid body \<and>
            map req_data (issued w (snd (rename_folder net self bad w))) = [Some body]) \<and>
         (\<exists>bad body. CHR 0x22 \<in> set bad \<and> \<not> json_valid body \<and>
            map req_data (issued w (snd (create_child_folder net self bad w))) = [Some body]) \<and>
         (\<exists>bad body. CHR 0x22 \<in> set bad \<and> \<not> json_valid body \<and>
            map req_data (issued w (snd (move_folder net self bad w))) = [Some body]) \<and>
         (\<exists>bad body. CHR 0x22 \<in> set bad \<and> \<not> json_valid body \<and>
            map req_data (issued w (snd (copy_folder net self bad w))) = [Some body])\<close>
proof -
  have r: \<open>map req_data (issued w (snd (rename_folder net self x w))) =
            [Some (''{ "DisplayName": "'' @ x @ ''"}'')]\<close> for x
    by (simp add: rename_folder_issued [OF assms])
  have c: \<open>map req_data (issued w (snd (create_child_folder net self x w))) =
            [Some (''{ "DisplayName": "'' @ x @ ''"}'')]\<close> for x
    by (simp add: create_child_folder_issued [OF assms])
  have m: \<open>map req_data (issued w (snd (move_folder net self x w))) =
            [Some (''{ "DestinationId": "'' @ x @ ''"}'')]\<close> for x
    by (simp add: move_folder_issued [OF assms])
  have k: \<open>map req_data (issued w (snd (copy_folder net self x w))) =
            [Some (''{ "DestinationId": "'' @ x @ ''"}'')]\<close> for x
    by (simp add: copy_folder_issued [OF assms])
  have r': \<open>\<exists>bad body. CHR 0x22 \<in> set bad \<and> \<not> json_valid body \<and>
            map req_data (issued w (snd (rename_folder net self bad w))) = [Some body]\<close>
    using quote_in_name display_name_quote_invalid r by blast
  have c': \<open>\<exists>bad body. CHR 0x22 \<in> set bad \<and> \<not> json_valid body \<and>
            map req_data (issued w (snd (create_child_folder net self bad w))) = [Some body]\<close>
    using quote_in_name display_name_quote_invalid c by blast
  have m': \<open>\<exists>bad body. CHR 0x22 \<in> set bad \<and> \<not> json_valid body \<and>
            map req_data (issued w (snd (move_folder net self bad w))) = [Some body]\<close>
    using quote_in_name destination_id_quote_invalid m by blast
  have k': \<open>\<exists>bad body. CHR 0x22 \<in> set bad \<and> \<not> json_valid body \<and>
            map req_data (issued w (snd (copy_folder net self bad w))) = [Some body]\<close>
    using quote_in_name destination_id_quote_invalid k by blast
  from r c m k r' c' m' k' show ?thesis by (intro conjI)
qed

theorem request_bodies_unescaped_witness:
  \<open>map req_data (issued example_world
       (snd (rename_folder (answer 200 (Some archive_json)) 1 ''Archive'' example_world))) =
     [Some ''{ "DisplayName": "Archive"}''] \<and>
   map req_data (issued example_world
       (snd (create_child_folder (answer 200 (Some archive_json)) 1 ''Archive'' example_world))) =
     [Some ''{ "DisplayName": "Archive"}''] \<and>
   map req_data (issued example_world
       (snd (move_folder (answer 200 (Some archive_json)) 1 ''BBB'' example_world))) =
     [Some ''{ "DestinationId": "BBB"}''] \<and>
   map req_data (issued example_world
       (snd (copy_folder (answer 200 (Some archive_json)) 1 ''BBB'' example_world))) =
     [Some ''{ "DestinationId": "BBB"}''] \<and>
   (\<exists>bad body. CHR 0x22 \<in> set bad \<and> \<not> json_valid body \<and>
      map req_data (issued example_world
        (snd (rename_folder (answer 200 (Some archive_json)) 1 bad example_world))) = [Some body])\<close>
  using request_bodies_unescaped [OF example_self example_self_id example_self_account,
      where net = "answer 200 (Some archive_json)" and name = "''Archive''" and dest = "''BBB''"]
  by simp

text \<open>
  C8. The one request each of the seven operations sends carries exactly two headers, in this
  order: Authorization, with \<^verbatim>\<open>Bearer\<close>, a space and the access token the account holds in the
  store at the time of the call, and Content-Type, with \<^verbatim>\<open>application/json\<close>. They are what
  the property \<^verbatim>\<open>headers\<close> computes from the store at that call.
\<close>

theorem request_headers:
  assumes "lookup w self = Some (ObjFolder f)" and "folder_id f = JString i"
    and "lookup w (account f) = Some (ObjAccount a)"
  shows "headers self w =
           (Inr [(''Authorization'', ''Bearer '' @ access_token a),
                 (''Content-Type'', ''application/json'')], w) \<and>
         map req_headers (issued w (snd (rename_folder net self name w))) =
           [[(''Authorization'', ''Bearer '' @ access_token a),
             (''Content-Type'', ''application/json'')]] \<and>
         map req_headers (issued w (snd (get_subfolders net self w))) =
           [[(''Authorization'', ''Bearer '' @ access_token a),
             (''Content-Type'', ''application/json'')]] \<and>
         map req_headers (issued w (snd (delete_folder net self w))) =
           [[(''Authorization'', ''Bearer '' @ access_token a),
             (''Content-Type'', ''application/json'')]] \<and>
         map req_headers (issued w (snd (move_folder net self dest w))) =
           [[(''Authorization'', ''Bearer '' @ access_token a),
             (''Content-Type'', ''application/json'')]] \<and>
         map req_headers (issued w (snd (copy_folder net self dest w))) =
           [[(''Authorization'', ''Bearer '' @ access_token a),
             (''Content-Type'', ''application/json'')]] \<and>
         map req_headers (issued w (snd (create_child_folder net self name w))) =
           [[(''Authorization'', ''Bearer '' @ access_token a),
             (''Content-Type'', ''application/json'')]] \<and>
         map req_headers (issued w (snd (messages json_to_messages net self w))) =
           [[(''Authorization'', ''Bearer '' @ access_token a),
             (''Content-Type'', ''application/json'')]]"
proof -
  have h: "headers self w =
           (Inr [(''Authorization'', ''Bearer '' @ access_token a),
                 (''Content-Type'', ''application/json'')], w)"
    by (simp add: headers_def get_folder_run [OF assms(1)] get_access_token_run [OF assms(3)]
        ret_def)
  show ?thesis
    by (simp add: h rename_folder_issued [OF assms] get_subfolders_issued [OF assms]
        delete_folder_issued [OF assms] move_folder_issued [OF assms]
        copy_folder_issued [OF assms] create_child_folder_issued [OF assms]
        messages_issued [OF assms])
qed

theorem request_headers_witness:
  "headers 1 example_world =
     (Inr [(''Authorization'', ''Bearer tok''), (''Content-Type'', ''application/json'')],
      example_world) \<and>
   map req_headers (issued example_world
       (snd (delete_folder (answer 200 None) 1 example_world))) =
     [[(''Authorization'', ''Bearer tok''), (''Content-Type'', ''application/json'')]] \<and>
   map req_headers
     (issued (example_world\<lparr>heap := (heap example_world)[0 := ObjAccount \<lparr>access_token = ''fresh''\<rparr>]\<rparr>)
       (snd (delete_folder (answer 200 None) 1
          (example_world\<lparr>heap := (heap example_world)[0 := ObjAccount \<lparr>access_token = ''fresh''\<rparr>]\<rparr>)))) =
     [[(''Authorization'', ''Bearer fresh''), (''Content-Type'', ''application/json'')]]"
proof -
  let ?f = "\<lparr>account = 0, parent_id = JString ''root'', child_folder_count = JInt 0,
             unread_count = JInt 0, total_items = JInt 0,
             folder_name = JString ''Inbox'', folder_id = JString ''AAA''\<rparr>"
  let ?w2 = "example_world\<lparr>heap := (heap example_world)[0 := ObjAccount \<lparr>access_token = ''fresh''\<rparr>]\<rparr>"
  have s2: "lookup ?w2 1 = Some (ObjFolder ?f)"
    by (simp add: lookup_def example_world_def)
  have a2: "lookup ?w2 (account ?f) = Some (ObjAccount \<lparr>access_token = ''fresh''\<rparr>)"
    by (simp add: lookup_def example_world_def)
  show ?thesis
    using request_headers [OF example_self example_self_id example_self_account,
        where net = "answer 200 None" and name = "''Archive''" and dest = "''BBB''"
          and json_to_messages = "\<lambda>acct j. Inr (acct, j)"]
      request_headers [OF s2 example_self_id a2,
        where net = "answer 200 None" and name = "''Archive''" and dest = "''BBB''"
          and json_to_messages = "\<lambda>acct j. Inr (acct, j)"]
    by simp
qed

text \<open>
  C9. Each operation sends its one request to the base
  \<^verbatim>\<open>https://outlook.office.com/api/v2.0/me/MailFolders/\<close> followed by the Folder's id and the
  operation's suffix, with the operation's method: PATCH and no suffix for \<^verbatim>\<open>rename_folder\<close>,
  DELETE and no suffix for \<^verbatim>\<open>delete_folder\<close>, GET and \<^verbatim>\<open>/childfolders\<close> for \<^verbatim>\<open>get_subfolders\<close>,
  POST and \<^verbatim>\<open>/childfolders\<close> for \<^verbatim>\<open>create_child_folder\<close>, POST and \<^verbatim>\<open>/move\<close> for
  \<^verbatim>\<open>move_folder\<close>, POST and \<^verbatim>\<open>/copy\<close> for \<^verbatim>\<open>copy_folder\<close>, GET and \<^verbatim>\<open>/messages\<close> for
  \<^verbatim>\<open>messages\<close>.
\<close>

theorem request_method_and_url:
  assumes "lookup w self = Some (ObjFolder f)" and "folder_id f = JString i"
    and "lookup w (account f) = Some (ObjAccount a)"
  shows "map (\<lambda>rq. (req_method rq, req_url rq)) (issued w (snd (rename_folder net self name w))) =
           [(PATCH, ''https://outlook.office.com/api/v2.0/me/MailFolders/'' @ i)] \<and>
         map (\<lambda>rq. (req_method rq, req_url rq)) (issued w (snd (delete_folder net self w))) =
           [(DELETE, ''https://outlook.office.com/api/v2.0/me/MailFolders/'' @ i)] \<and>
         map (\<lambda>rq. (req_method rq, req_url rq)) (issued w (snd (get_subfolders net self w))) =
           [(GET, ''https://outlook.office.com/api/v2.0/me/MailFolders/'' @ i @ ''/childfolders'')] \<and>
         map (\<lambda>rq. (req_method rq, req_url rq)) (issued w (snd (create_child_folder net self name w))) =
           [(POST, ''https://outlook.office.com/api/v2.0/me/MailFolders/'' @ i @ ''/childfolders'')] \<and>
         map (\<lambda>rq. (req_method rq, req_url rq)) (issued w (snd (move_folder net self dest w))) =
           [(POST, ''https://outlook.office.com/api/v2.0/me/MailFolders/'' @ i @ ''/move'')] \<and>
         map (\<lambda>rq. (req_method rq, req_url rq)) (issued w (snd (copy_folder net self dest w))) =
           [(POST, ''https://outlook.office.com/api/v2.0/me/MailFolders/'' @ i @ ''/copy'')] \<and>
         map (\<lambda>rq. (req_method rq, req_url rq))
             (issued w (snd (messages json_to_messages net self w))) =
           [(GET, ''https://outlook.office.com/api/v2.0/me/MailFolders/'' @ i @ ''/messages'')]"
  by (simp add: rename_folder_issued [OF assms] get_subfolders_issued [OF assms]
      delete_folder_issued [OF assms] move_folder_issued [OF assms]
      copy_folder_issued [OF assms] create_child_folder_issued [OF assms]
      messages_issued [OF assms])

theorem request_method_and_url_witness:
  "map (\<lambda>rq. (req_method rq, req_url rq))
       (issued example_world (snd (rename_folder (answer 200 None) 1 ''Archive'' example_world))) =
     [(PATCH, ''https://outlook.office.com/api/v2.0/me/MailFolders/AAA'')] \<and>
   map (\<lambda>rq. (req_method rq, req_url rq))
       (issued example_world (snd (delete_folder (answer 200 None) 1 example_world))) =
     [(DELETE, ''https://outlook.office.com/api/v2.0/me/MailFolders/AAA'')] \<and>
   map (\<lambda>rq. (req_method rq, req_url rq))
       (issued example_world (snd (get_subfolders (answer 200 None) 1 example_world))) =
     [(GET, ''https://outlook.office.com/api/v2.0/me/MailFolders/AAA/childfolders'')] \<and>
   map (\<lambda>rq. (req_method rq, req_url rq))
       (issued example_world (snd (create_child_folder (answer 200 None) 1 ''Archive'' example_world))) =
     [(POST, ''https://outlook.office.com/api/v2.0/me/MailFolders/AAA/childfolders'')] \<and>
   map (\<lambda>rq. (req_method rq, req_url rq))
       (issued example_world (snd (move_folder (answer 200 None) 1 ''BBB'' example_world))) =
     [(POST, ''https://outlook.office.com/api/v2.0/me/MailFolders/AAA/move'')] \<and>
   map (\<lambda>rq. (req_method rq, req_url rq))
       (issued example_world (snd (copy_folder (answer 200 None) 1 ''BBB'' example_world))) =
     [(POST, ''https://outlook.office.com/api/v2.0/me/MailFolders/AAA/copy'')] \<and>
   map (\<lambda>rq. (req_method rq, req_url rq))
       (issued example_world
          (snd (messages (\<lambda>acct j. Inr (acct, j)) (answer 200 None) 1 example_world))) =
     [(GET, ''https://outlook.office.com/api/v2.0/me/MailFolders/AAA/messages'')]"
  using request_method_and_url [OF example_self example_self_id example_self_account,
      where net = "answer 200 None" and name = "''Archive''" and dest = "''BBB''"
        and json_to_messages = "\<lambda>acct j. Inr (acct, j)"]
  by simp

section \<open>Missing keys\<close>

lemma json_to_folders_missing_value:
  assumes "map_of kvs ''value'' = None"
  shows "json_to_folders acct (JObject kvs) w = (Inl (KeyError ''value''), w)"
  using assms by (simp add: json_to_folders_def raise_def)

lemma find_first:
  assumes "\<forall>k \<in> set pre. \<not> P k" and "P k'"
  shows "find P (pre @ k' # post) = Some k'"
  using assms by (induction pre) auto

lemma json_to_folder_find:
  assumes "find (\<lambda>k. map_of kvs k = None) folder_keys = Some k'"
  shows "json_to_folder acct (JObject kvs) w = (Inl (KeyError k'), w)"
  using assms unfolding folder_keys_def
  by (auto simp: json_to_folder_object split: if_splits)

lemma json_to_folder_first_missing:
  assumes "folder_keys = pre @ k' # post" and "\<forall>k \<in> set pre. map_of kvs k \<noteq> None"
    and "map_of kvs k' = None"
  shows "json_to_folder acct (JObject kvs) w = (Inl (KeyError k'), w)"
proof -
  have "find (\<lambda>k. map_of kvs k = None) (pre @ k' # post) = Some k'"
    using assms(2,3) by (intro find_first) simp_all
  with assms(1) have "find (\<lambda>k. map_of kvs k = None) folder_keys = Some k'" by simp
  then show ?thesis by (rule json_to_folder_find)
qed

lemma first_missing_key:
  assumes "k \<in> set folder_keys" and "map_of kvs k = None"
  shows "\<exists>pre k' post. folder_keys = pre @ k' # post \<and>
           (\<forall>k \<in> set pre. map_of kvs k \<noteq> None) \<and> map_of kvs k' = None"
proof -
  from assms have "\<exists>x \<in> set folder_keys. map_of kvs x = None" by blast
  from split_list_first_prop [OF this] show ?thesis by blast
qed

text \<open>
  C10 (as amended). \<^verbatim>\<open>_json_to_folder\<close> on a JSON object that lacks one of the six keys raises
  KeyError for the first key it lacks, in the order Id, DisplayName, ParentFolderId,
  ChildFolderCount, UnreadItemCount, TotalItemCount, and makes no Folder; \<^verbatim>\<open>_json_to_folders\<close>
  on a JSON object without the key \<open>value\<close> raises KeyError for it. So \<^verbatim>\<open>rename_folder\<close>,
  \<^verbatim>\<open>move_folder\<close>, \<^verbatim>\<open>copy_folder\<close> and \<^verbatim>\<open>create_child_folder\<close>, answered outside the error band
  with an object that lacks one of the six keys, raise that KeyError instead of returning, and
  so does \<^verbatim>\<open>get_subfolders\<close> answered with an object without \<open>value\<close>. \<^verbatim>\<open>delete_folder\<close>,
  answered outside the error band, decodes nothing and returns None whatever the body is.
\<close>

theorem decoding_needs_every_key:
  assumes "lookup w self = Some (ObjFolder f)" and "folder_id f = JString i"
    and "lookup w (account f) = Some (ObjAccount a)"
    and "\<forall>rq. net rq = Inr r"
    and "status_code r \<le> 399 \<or> 452 \<le> status_code r"
  shows
   "(\<forall>k \<in> set folder_keys. map_of kvs k = None \<longrightarrow>
       (\<exists>pre k' post.
          folder_keys = pre @ k' # post \<and> (\<forall>k0 \<in> set pre. map_of kvs k0 \<noteq> None) \<and>
          map_of kvs k' = None \<and>
          (\<forall>acct w0. json_to_folder acct (JObject kvs) w0 = (Inl (KeyError k'), w0)) \<and>
          (json_body r = Some (JObject kvs) \<longrightarrow>
            (\<exists>rq. rename_folder net self name w =
               (Inl (KeyError k'), w\<lparr>trace := trace w @ [EvRequest rq, EvJson]\<rparr>)) \<and>
            (\<exists>rq. move_folder net self dest w =
               (Inl (KeyError k'), w\<lparr>trace := trace w @ [EvRequest rq, EvJson]\<rparr>)) \<and>
            (\<exists>rq. copy_folder net self dest w =
               (Inl (KeyError k'), w\<lparr>trace := trace w @ [EvRequest rq, EvJson]\<rparr>)) \<and>
            (\<exists>rq. create_child_folder net self name w =
               (Inl (KeyError k'), w\<lparr>trace := trace w @ [EvRequest rq, EvJson]\<rparr>))))) \<and>
    (map_of kvs ''value'' = None \<longrightarrow>
       (\<forall>acct w0. json_to_folders acct (JObject kvs) w0 = (Inl (KeyError ''value''), w0)) \<and>
       (json_body r = Some (JObject kvs) \<longrightarrow>
         (\<exists>rq. get_subfolders net self w =
            (Inl (KeyError ''value''), w\<lparr>trace := trace w @ [EvRequest rq, EvJson]\<rparr>)))) \<and>
    (\<exists>rq. delete_folder net self w = (Inr (), w\<lparr>trace := trace w @ [EvRequest rq]\<rparr>))"
proof -
  have net: "net rq = Inr r" for rq using assms(4) by simp
  have part1: "\<exists>pre k' post.
          folder_keys = pre @ k' # post \<and> (\<forall>k0 \<in> set pre. map_of kvs k0 \<noteq> None) \<and>
          map_of kvs k' = None \<and>
          (\<forall>acct w0. json_to_folder acct (JObject kvs) w0 = (Inl (KeyError k'), w0)) \<and>
          (json_body r = Some (JObject kvs) \<longrightarrow>
            (\<exists>rq. rename_folder net self name w =
               (Inl (KeyError k'), w\<lparr>trace := trace w @ [EvRequest rq, EvJson]\<rparr>)) \<and>
            (\<exists>rq. move_folder net self dest w =
               (Inl (KeyError k'), w\<lparr>trace := trace w @ [EvRequest rq, EvJson]\<rparr>)) \<and>
            (\<exists>rq. copy_folder net self dest w =
               (Inl (KeyError k'), w\<lparr>trace := trace w @ [EvRequest rq, EvJson]\<rparr>)) \<and>
            (\<exists>rq. create_child_folder net self name w =
               (Inl (KeyError k'), w\<lparr>trace := trace w @ [EvRequest rq, EvJson]\<rparr>)))"
    if k: "k \<in> set folder_keys" "map_of kvs k = None" for k
  proof -
    from first_missing_key [OF k] obtain pre k' post where
      split: "folder_keys = pre @ k' # post"
      and first: "\<forall>k0 \<in> set pre. map_of kvs k0 \<noteq> None"
      and miss: "map_of kvs k' = None"
      by blast
    have dec: "json_to_folder acct (JObject kvs) w0 = (Inl (KeyError k'), w0)" for acct w0
      by (rule json_to_folder_first_missing [OF split first miss])
    have ops: "(\<exists>rq. rename_folder net self name w =
               (Inl (KeyError k'), w\<lparr>trace := trace w @ [EvRequest rq, EvJson]\<rparr>)) \<and>
            (\<exists>rq. move_folder net self dest w =
               (Inl (KeyError k'), w\<lparr>trace := trace w @ [EvRequest rq, EvJson]\<rparr>)) \<and>
            (\<exists>rq. copy_folder net self dest w =
               (Inl (KeyError k'), w\<lparr>trace := trace w @ [EvRequest rq, EvJson]\<rparr>)) \<and>
            (\<exists>rq. create_child_folder net self name w =
               (Inl (KeyError k'), w\<lparr>trace := trace w @ [EvRequest rq, EvJson]\<rparr>))"
      if body: "json_body r = Some (JObject kvs)"
    proof -
      have reply: "folder_reply (account f) (net rq) (w\<lparr>trace := trace w @ [EvRequest rq]\<rparr>) =
          (Inl (KeyError k'), w\<lparr>trace := trace w @ [EvRequest rq, EvJson]\<rparr>)" for rq
        by (simp add: folder_reply_success [where res = "net rq", OF net assms(5)] body dec)
      have r1: "\<exists>rq. rename_folder net self name w =
                 (Inl (KeyError k'), w\<lparr>trace := trace w @ [EvRequest rq, EvJson]\<rparr>)"
        unfolding rename_folder_run [OF assms(1-3)] Let_def reply by (rule exI, rule refl)
      have r2: "\<exists>rq. move_folder net self dest w =
                 (Inl (KeyError k'), w\<lparr>trace := trace w @ [EvRequest rq, EvJson]\<rparr>)"
        unfolding move_folder_run [OF assms(1-3)] Let_def reply by (rule exI, rule refl)
      have r3: "\<exists>rq. copy_folder net self dest w =
                 (Inl (KeyError k'), w\<lparr>trace := trace w @ [EvRequest rq, EvJson]\<rparr>)"
        unfolding copy_folder_run [OF assms(1-3)] Let_def reply by (rule exI, rule refl)
      have r4: "\<exists>rq. create_child_folder net self name w =
                 (Inl (KeyError k'), w\<lparr>trace := trace w @ [EvRequest rq, EvJson]\<rparr>)"
        unfolding create_child_folder_run [OF assms(1-3)] Let_def reply by (rule exI, rule refl)
      from r1 r2 r3 r4 show ?thesis by (intro conjI)
    qed
    from split first miss dec ops show ?thesis by blast
  qed
  have part2: "(\<forall>acct w0. json_to_folders acct (JObject kvs) w0 = (Inl (KeyError ''value''), w0)) \<and>
       (json_body r = Some (JObject kvs) \<longrightarrow>
         (\<exists>rq. get_subfolders net self w =
            (Inl (KeyError ''value''), w\<lparr>trace := trace w @ [EvRequest rq, EvJson]\<rparr>)))"
    if v: "map_of kvs ''value'' = None"
  proof (intro conjI impI allI)
    show "json_to_folders acct (JObject kvs) w0 = (Inl (KeyError ''value''), w0)" for acct w0
      by (rule json_to_folders_missing_value [OF v])
    assume body: "json_body r = Some (JObject kvs)"
    show "\<exists>rq. get_subfolders net self w =
            (Inl (KeyError ''value''), w\<lparr>trace := trace w @ [EvRequest rq, EvJson]\<rparr>)"
      using assms(5) body
      by (intro exI [where x = "\<lparr>req_method = GET,
                  req_url = ''https://outlook.office.com/api/v2.0/me/MailFolders/'' @ i @ ''/childfolders'',
                  req_headers = [(''Authorization'', ''Bearer '' @ access_token a),
                                 (''Content-Type'', ''application/json'')],
                  req_data = None\<rparr>"])
         (auto simp: get_subfolders_run [OF assms(1-3)] Let_def net r_json_run
            json_to_folders_missing_value [OF v])
  qed
  have part3: "\<exists>rq. delete_folder net self w = (Inr (), w\<lparr>trace := trace w @ [EvRequest rq]\<rparr>)"
    using assms(5)
    by (intro exI [where x = "\<lparr>req_method = DELETE,
                req_url = ''https://outlook.office.com/api/v2.0/me/MailFolders/'' @ i,
                req_headers = [(''Authorization'', ''Bearer '' @ access_token a),
                               (''Content-Type'', ''application/json'')],
                req_data = None\<rparr>"])
       (auto simp: delete_folder_run [OF assms(1-3)] Let_def net)
  from part1 part2 part3 show ?thesis by blast
qed

theorem decoding_needs_every_key_witness:
  "json_to_folder 0
     (JObject [(''Id'', JString ''AAA''), (''ParentFolderId'', JString ''root''),
               (''ChildFolderCount'', JInt 0), (''UnreadItemCount'', JInt 0)]) example_world =
     (Inl (KeyError ''DisplayName''), example_world) \<and>
   (\<exists>rq. rename_folder
      (answer 200 (Some
        (JObject [(''Id'', JString ''AAA''), (''ParentFolderId'', JString ''root''),
                  (''ChildFolderCount'', JInt 0), (''UnreadItemCount'', JInt 0)])))
      1 ''Archive'' example_world =
     (Inl (KeyError ''DisplayName''),
      example_world\<lparr>trace := trace example_world @ [EvRequest rq, EvJson]\<rparr>)) \<and>
   json_to_folders 0
     (JObject [(''Id'', JString ''AAA''), (''ParentFolderId'', JString ''root''),
               (''ChildFolderCount'', JInt 0), (''UnreadItemCount'', JInt 0)]) example_world =
     (Inl (KeyError ''value''), example_world) \<and>
   (\<exists>rq. get_subfolders
      (answer 200 (Some
        (JObject [(''Id'', JString ''AAA''), (''ParentFolderId'', JString ''root''),
                  (''ChildFolderCount'', JInt 0), (''UnreadItemCount'', JInt 0)])))
      1 example_world =
     (Inl (KeyError ''value''),
      example_world\<lparr>trace := trace example_world @ [EvRequest rq, EvJson]\<rparr>)) \<and>
   (\<exists>rq. delete_folder
      (answer 200 (Some
        (JObject [(''Id'', JString ''AAA''), (''ParentFolderId'', JString ''root''),
                  (''ChildFolderCount'', JInt 0), (''UnreadItemCount'', JInt 0)])))
      1 example_world =
     (Inr (), example_world\<lparr>trace := trace example_world @ [EvRequest rq]\<rparr>))"
proof -
  let ?kvs = "[(''Id'', JString ''AAA''), (''ParentFolderId'', JString ''root''),
               (''ChildFolderCount'', JInt 0), (''UnreadItemCount'', JInt 0)]"
  let ?r = "\<lparr>status_code = 200, json_body = Some (JObject ?kvs)\<rparr>"
  let ?net = "answer 200 (Some (JObject ?kvs))"
  have h4: "\<forall>rq. ?net rq = Inr ?r" by (simp add: answer_def)
  have h5: "status_code ?r \<le> 399 \<or> 452 \<le> status_code ?r" by simp
  have body: "json_body ?r = Some (JObject ?kvs)" by simp
  note t = decoding_needs_every_key [where net = ?net and kvs = ?kvs
      and name = "''Archive''" and dest = "''BBB''",
      OF example_self example_self_id example_self_account h4 h5]
  have miss: "''TotalItemCount'' \<in> set folder_keys" "map_of ?kvs ''TotalItemCount'' = None"
    by (simp_all add: folder_keys_def)
  from t miss obtain pre k' post where
    split: "folder_keys = pre @ k' # post"
    and first: "\<forall>k0 \<in> set pre. map_of ?kvs k0 \<noteq> None"
    and none: "map_of ?kvs k' = None"
    and dec: "\<And>acct w0. json_to_folder acct (JObject ?kvs) w0 = (Inl (KeyError k'), w0)"
    and ops: "json_body ?r = Some (JObject ?kvs) \<longrightarrow>
        (\<exists>rq. rename_folder ?net 1 ''Archive'' example_world =
           (Inl (KeyError k'), example_world\<lparr>trace := trace example_world @ [EvRequest rq, EvJson]\<rparr>)) \<and>
        (\<exists>rq. move_folder ?net 1 ''BBB'' example_world =
           (Inl (KeyError k'), example_world\<lparr>trace := trace example_world @ [EvRequest rq, EvJson]\<rparr>)) \<and>
        (\<exists>rq. copy_folder ?net 1 ''BBB'' example_world =
           (Inl (KeyError k'), example_world\<lparr>trace := trace example_world @ [EvRequest rq, EvJson]\<rparr>)) \<and>
        (\<exists>rq. create_child_folder ?net 1 ''Archive'' example_world =
           (Inl (KeyError k'), example_world\<lparr>trace := trace example_world @ [EvRequest rq, EvJson]\<rparr>))"
    by blast
  have "find (\<lambda>k. map_of ?kvs k = None) (pre @ k' # post) = Some k'"
    using first none by (intro find_first) simp_all
  with split have "find (\<lambda>k. map_of ?kvs k = None) folder_keys = Some k'" by simp
  then have k': "k' = ''DisplayName''" by (simp add: folder_keys_def)
  from dec k' have 1: "json_to_folder 0 (JObject ?kvs) example_world =
       (Inl (KeyError ''DisplayName''), example_world)"
    by simp
  from ops body k' have 2: "\<exists>rq. rename_folder ?net 1 ''Archive'' example_world =
       (Inl (KeyError ''DisplayName''),
        example_world\<lparr>trace := trace example_world @ [EvRequest rq, EvJson]\<rparr>)"
    by blast
  have v: "map_of ?kvs ''value'' = None" by simp
  from t v have 3: "json_to_folders 0 (JObject ?kvs) example_world =
       (Inl (KeyError ''value''), example_world)"
    by blast
  from t v body have 4: "\<exists>rq. get_subfolders ?net 1 example_world =
       (Inl (KeyError ''value''),
        example_world\<lparr>trace := trace example_world @ [EvRequest rq, EvJson]\<rparr>)"
    by blast
  from t have 5: "\<exists>rq. delete_folder ?net 1 example_world =
       (Inr (), example_world\<lparr>trace := trace example_world @ [EvRequest rq]\<rparr>)"
    by blast
  from 1 2 3 4 5 show ?thesis by (intro conjI)
qed

text \<open>
  C10 as first stated has any operation raise on such a body. \<^verbatim>\<open>delete_folder\<close> never decodes
  the body: answered 200 with the empty JSON object, which lacks all six keys, it returns
  None.
\<close>

theorem delete_folder_ignores_body:
  "map_of ([] :: (string \<times> json) list) ''Id'' = None \<and>
   fst (delete_folder (answer 200 (Some (JObject []))) 1 example_world) = Inr ()"
proof -
  have "delete_folder (answer 200 (Some (JObject []))) 1 example_world =
      (Inr (), example_world\<lparr>trace := trace example_world @
         [EvRequest \<lparr>req_method = DELETE,
            req_url = ''https://outlook.office.com/api/v2.0/me/MailFolders/AAA'',
            req_headers = [(''Authorization'', ''Bearer tok''),
                           (''Content-Type'', ''application/json'')],
            req_data = None\<rparr>]\<rparr>)"
    by (subst delete_folder_run [OF example_self example_self_id example_self_account])
       (simp add: Let_def answer_def)
  then show ?thesis by simp
qed

end
